theory Spec2Isabelle
  imports Complex_Main "HOL-Library.Stream"
begin

section \<open>Numbers and the environment\<close>

text \<open>
  The program is the React component \<open>PixiRocketLauncher\<close>. Its newest variant (the one
  with particle, ring and shake effects) is modelled in full; of the two older variants
  (\<open>App.tsx\<close> and the variant with a \<open>preparing\<close> phase) the three command handlers
  are modelled.

  JavaScript numbers are modelled as exact reals. Every branch the theorems below follow
  for a concrete run (\<open>life <= 0\<close> after fifty decrements of \<open>0.02\<close>, \<open>alpha > 0\<close>
  after decrements of \<open>0.03\<close>, sums of \<open>16\<close> and of \<open>8\<close>) is taken the same way by
  IEEE doubles. \<open>Math.random()\<close> and \<open>Date.now()\<close> are inputs: each call takes the
  next element of a stream that is part of the state.
\<close>

section \<open>The particle unit (\<open>createExplosionParticles\<close>)\<close>

text \<open>
  A particle is a \<open>Graphics\<close> object with the extra fields \<open>vx\<close>, \<open>vy\<close>,
  \<open>gravity\<close> and \<open>life\<close>. A particle is a child of the scene container exactly as
  long as it is an element of the \<open>particles\<close> array: \<open>addChild\<close> goes with
  \<open>push\<close>, \<open>removeChild\<close> with \<open>splice\<close>.
\<close>

record particle =
  p_x :: real
  p_y :: real
  p_alpha :: real
  p_scale_x :: real
  p_scale_y :: real
  p_color :: "nat option"
  p_radius :: real
  p_vx :: real
  p_vy :: real
  p_gravity :: real
  p_life :: real

text \<open>The palette \<open>[0xFF4400, 0xFFAA00, 0xFFFF00, 0xFF0000, 0xFFCC00]\<close>.\<close>

definition colors :: "nat list" where
  "colors = [16729088, 16755200, 16776960, 16711680, 16763904]"

text \<open>
  \<open>colors[Math.floor(r * colors.length)]\<close>; an index out of range reads
  \<open>undefined\<close>. The product is taken in exact reals. The browser rounds it to a
  double, and for a few \<open>r\<close> just below a multiple of \<open>1/5\<close> the rounded product is
  the next integer (the double nearest to 0.6 times 5 is 3), so that there the browser
  picks the next colour of the palette. No statement below says which colour a particle
  has.
\<close>

definition pickColor :: "real \<Rightarrow> nat option" where
  "pickColor r =
     (let i = \<lfloor>r * real (length colors)\<rfloor>
      in if 0 \<le> i \<and> i < int (length colors) then Some (colors ! nat i) else None)"

text \<open>
  One iteration of the spawning loop. The four calls of \<open>Math.random()\<close> are, in the
  order of the source: the colour, the radius, \<open>vx\<close>, \<open>vy\<close>.
\<close>

definition newParticle :: "real \<Rightarrow> real \<Rightarrow> real stream \<Rightarrow> particle \<times> real stream" where
  "newParticle x0 y0 rs =
     (let color = pickColor (shd rs); rs1 = stl rs;
          radius = shd rs1 * 4 + 1; rs2 = stl rs1;
          vx = (shd rs2 - 0.5) * 20; rs3 = stl rs2;
          vy = (shd rs3 - 0.5) * 20; rs4 = stl rs3
      in (\<lparr>p_x = x0, p_y = y0, p_alpha = 1, p_scale_x = 1, p_scale_y = 1,
            p_color = color, p_radius = radius,
            p_vx = vx, p_vy = vy, p_gravity = 0.3, p_life = 1.0\<rparr>, rs4))"

text \<open>\<open>for (let i = 0; i < 50; i++) { ...; particles.push(particle) }\<close>, by the number
  of iterations left.\<close>

fun spawnLoop :: "nat \<Rightarrow> real \<Rightarrow> real \<Rightarrow> real stream \<Rightarrow> particle list
    \<Rightarrow> particle list \<times> real stream" where
  "spawnLoop 0 x0 y0 rs particles = (particles, rs)"
| "spawnLoop (Suc n) x0 y0 rs particles =
     (case newParticle x0 y0 rs of
        (p, rs') \<Rightarrow> spawnLoop n x0 y0 rs' (particles @ [p]))"

definition spawnParticles :: "real \<Rightarrow> real \<Rightarrow> real stream \<Rightarrow> particle list \<times> real stream" where
  "spawnParticles x0 y0 rs = spawnLoop 50 x0 y0 rs []"

text \<open>The body of the \<open>forEach\<close> callback for a particle whose life is positive.\<close>

definition stepParticle :: "particle \<Rightarrow> particle" where
  "stepParticle p =
     (let p1 = p\<lparr>p_x := p_x p + p_vx p\<rparr>;
          p2 = p1\<lparr>p_y := p_y p1 + p_vy p1\<rparr>;
          p3 = p2\<lparr>p_vy := p_vy p2 + p_gravity p2\<rparr>;
          p4 = p3\<lparr>p_life := p_life p3 - 0.02\<rparr>;
          p5 = p4\<lparr>p_alpha := p_life p4\<rparr>
      in p5\<lparr>p_scale_x := p_life p5, p_scale_y := p_life p5\<rparr>)"

text \<open>\<open>particles.splice(index, 1)\<close>.\<close>

definition spliceOne :: "nat \<Rightarrow> 'a list \<Rightarrow> 'a list" where
  "spliceOne index xs = take index xs @ drop (Suc index) xs"

text \<open>The callback of \<open>particles.forEach((particle, index) => ...)\<close> at an index that
  is in range.\<close>

definition particleCallback :: "particle list \<Rightarrow> nat \<Rightarrow> particle list" where
  "particleCallback particles index =
     (if p_life (particles ! index) \<le> 0 then spliceOne index particles
      else particles[index := stepParticle (particles ! index)])"

text \<open>
  \<open>Array.prototype.forEach\<close>: the length is read once, before the first call; the
  indices \<open>0 .. len - 1\<close> are visited in order, and an index the array no longer has
  (the callback has shortened it) is passed over.
\<close>

function forEachFrom :: "nat \<Rightarrow> nat \<Rightarrow> particle list \<Rightarrow> particle list" where
  "forEachFrom k len particles =
     (if k < len then
        (if k < length particles
         then forEachFrom (Suc k) len (particleCallback particles k)
         else forEachFrom (Suc k) len particles)
      else particles)"
  by pat_completeness auto
termination
  by (relation "measure (\<lambda>(k, len, particles). len - k)") auto

text \<open>
  One call of \<open>animateParticles\<close>: the array after the pass, and whether
  \<open>requestAnimationFrame(animateParticles)\<close> was called.
\<close>

definition animateParticles :: "particle list \<Rightarrow> particle list \<times> bool" where
  "animateParticles particles =
     (let particles' = forEachFrom 0 (length particles) particles
      in (particles', length particles' > 0))"

text \<open>
  The chain of calls of one batch: \<open>n\<close> further opportunities to run. A call happens
  only when the previous one requested it.
\<close>

fun particleFrames :: "nat \<Rightarrow> particle list \<times> bool \<Rightarrow> particle list \<times> bool" where
  "particleFrames 0 st = st"
| "particleFrames (Suc n) (particles, requested) =
     particleFrames n (if requested then animateParticles particles else (particles, False))"

text \<open>
  What the pass computes, by recursion on the part of the array not yet visited: removing
  a particle moves its successor to the index just visited, so the successor is passed
  over in this pass. Used in the proofs only; \<open>forEachFrom_skipWalk\<close> shows
  it equal to the loop.
\<close>

fun skipWalk :: "particle list \<Rightarrow> particle list" where
  "skipWalk [] = []"
| "skipWalk [p] = (if p_life p \<le> 0 then [] else [stepParticle p])"
| "skipWalk (p # q # rest) =
     (if p_life p \<le> 0 then q # skipWalk rest else stepParticle p # skipWalk (q # rest))"


section \<open>The ring unit (\<open>createExplosionRings\<close>)\<close>

text \<open>
  A ring is a \<open>Graphics\<close> object. The \<open>rings\<close> array is only ever pushed to, so
  whether a ring is on the scene is its own \<open>parent\<close>: \<open>addChild\<close> sets it,
  \<open>removeChild\<close> clears it.
\<close>

record ring =
  r_x :: real
  r_y :: real
  r_alpha :: real
  r_scale_x :: real
  r_scale_y :: real
  r_parent :: bool

text \<open>The ring the timeout callback creates and adds to the container.\<close>

definition newRing :: "real \<Rightarrow> real \<Rightarrow> ring" where
  "newRing x0 y0 =
     \<lparr>r_x = x0, r_y = y0, r_alpha = 1, r_scale_x = 1, r_scale_y = 1, r_parent = True\<rparr>"

text \<open>One call of \<open>expandRing\<close>: the ring afterwards, and whether
  \<open>requestAnimationFrame(expandRing)\<close> was called.\<close>

definition expandRing :: "ring \<Rightarrow> ring \<times> bool" where
  "expandRing r =
     (let r1 = r\<lparr>r_scale_x := r_scale_x r + 0.3\<rparr>;
          r2 = r1\<lparr>r_scale_y := r_scale_y r1 + 0.3\<rparr>;
          r3 = r2\<lparr>r_alpha := r_alpha r2 - 0.03\<rparr>
      in if r_alpha r3 > 0 then (r3, True) else (r3\<lparr>r_parent := False\<rparr>, False))"

fun ringFrames :: "nat \<Rightarrow> ring \<times> bool \<Rightarrow> ring \<times> bool" where
  "ringFrames 0 st = st"
| "ringFrames (Suc n) (r, requested) =
     ringFrames n (if requested then expandRing r else (r, False))"

section \<open>The shake unit (\<open>createScreenShake\<close>)\<close>

record container =
  con_x :: real
  con_y :: real

text \<open>The variables the closure \<open>shake\<close> captures.\<close>

record shakeUnit =
  originalX :: real
  originalY :: real
  shakeTime :: real
  intensity :: real
  duration :: real

definition newShake :: "container \<Rightarrow> real \<Rightarrow> real \<Rightarrow> shakeUnit" where
  "newShake c i d =
     \<lparr>originalX = con_x c, originalY = con_y c, shakeTime = 0, intensity = i, duration = d\<rparr>"

text \<open>One call of \<open>shake\<close>: the closure's variables, the container, the random stream,
  and whether \<open>requestAnimationFrame(shake)\<close> was called.\<close>

definition shake :: "shakeUnit \<Rightarrow> container \<Rightarrow> real stream
    \<Rightarrow> shakeUnit \<times> container \<times> real stream \<times> bool" where
  "shake u c rs =
     (if shakeTime u < duration u then
        (let progress = shakeTime u / duration u;
             currentIntensity = intensity u * (1 - progress);
             c1 = c\<lparr>con_x := originalX u + (shd rs - 0.5) * currentIntensity\<rparr>;
             c2 = c1\<lparr>con_y := originalY u + (shd (stl rs) - 0.5) * currentIntensity\<rparr>
         in (u\<lparr>shakeTime := shakeTime u + 16\<rparr>, c2, stl (stl rs), True))
      else (u, c\<lparr>con_x := originalX u, con_y := originalY u\<rparr>, rs, False))"

fun shakeFrames :: "nat \<Rightarrow> shakeUnit \<times> container \<times> real stream \<times> bool
    \<Rightarrow> shakeUnit \<times> container \<times> real stream \<times> bool" where
  "shakeFrames 0 st = st"
| "shakeFrames (Suc n) (u, c, rs, requested) =
     shakeFrames n (if requested then shake u c rs else (u, c, rs, False))"


section \<open>The scene and the component's state\<close>

datatype phase = Idle | Shooting | Flying | Exploding

text \<open>\<open>app.screen\<close>: \<open>window.innerWidth\<close> and \<open>window.innerHeight\<close> are integers.\<close>

record screen =
  scr_width :: int
  scr_height :: int

text \<open>The rocket, a \<open>Sprite\<close>.\<close>

record sprite =
  spr_x :: real
  spr_y :: real
  spr_rotation :: real
  spr_visible :: bool
  spr_scale :: real

text \<open>
  The explosion, an \<open>AnimatedSprite\<close> that does not loop. The only function ever
  assigned to \<open>onComplete\<close> is \<open>() => setTimeout(() => resetRocket(), d)\<close>:
  \<open>ani_onComplete\<close> is \<open>Some d\<close> once it is assigned.
\<close>

record animated =
  ani_x :: real
  ani_y :: real
  ani_visible :: bool
  ani_scale :: real
  ani_playing :: bool
  ani_onComplete :: "nat option"

text \<open>The callbacks passed to \<open>setTimeout\<close> and to \<open>requestAnimationFrame\<close>. A
  particle batch, a ring and a shake are named by their index in the state below.\<close>

datatype timer = SpawnRing real real | ResetRocket

datatype rafCallback = RafParticles nat | RafShake nat | RafRing nat

text \<open>
  The state of the component with effects. \<open>gameState\<close> is the React state, which the
  handlers made by the latest render read; \<open>gameStateRef\<close> is the ref the frame loop
  reads. \<open>batches\<close>, \<open>rings\<close> and \<open>shakes\<close> hold the variables of the effect
  closures created so far: the \<open>particles\<close> array of each call of
  \<open>createExplosionParticles\<close>, every ring, and the variables of each \<open>shake\<close>.
  \<open>particlesRef\<close> names the batch whose array the ref holds (\<open>None\<close>: the empty
  array it starts with). \<open>rafQueue\<close> and \<open>timeouts\<close> are the callbacks the browser
  has been asked to run (a timeout with its delay in milliseconds). \<open>console\<close> is what
  \<open>console.log\<close> has written (the line, without its two emoji).
\<close>

record world =
  gameState :: phase
  gameStateRef :: phase
  appRef :: "screen option"
  rocketRef :: "sprite option"
  explosionRef :: "animated option"
  containerRef :: "container option"
  particlesRef :: "nat option"
  batches :: "particle list list"
  rings :: "ring list"
  shakes :: "shakeUnit list"
  rafQueue :: "rafCallback list"
  timeouts :: "(nat \<times> timer) list"
  randoms :: "real stream"
  clock :: "real stream"
  console :: "string list"

definition setGameState :: "phase \<Rightarrow> world \<Rightarrow> world" where
  "setGameState v w = w\<lparr>gameState := v\<rparr>"

text \<open>The effect \<open>useEffect(() => { gameStateRef.current = gameState }, [gameState])\<close>,
  which React runs after it has rendered a new \<open>gameState\<close>.\<close>

definition render :: "world \<Rightarrow> world" where
  "render w = w\<lparr>gameStateRef := gameState w\<rparr>"

definition requestAnimationFrame :: "rafCallback \<Rightarrow> world \<Rightarrow> world" where
  "requestAnimationFrame cb w = w\<lparr>rafQueue := rafQueue w @ [cb]\<rparr>"

definition setTimeout :: "timer \<Rightarrow> nat \<Rightarrow> world \<Rightarrow> world" where
  "setTimeout cb delay w = w\<lparr>timeouts := timeouts w @ [(delay, cb)]\<rparr>"

subsection \<open>The effect units in the state\<close>

text \<open>\<open>animateParticles\<close> of batch \<open>b\<close>.\<close>

definition animateParticlesAt :: "nat \<Rightarrow> world \<Rightarrow> world" where
  "animateParticlesAt b w =
     (if b < length (batches w) then
        (case animateParticles (batches w ! b) of
           (particles', requested) \<Rightarrow>
             (let w' = w\<lparr>batches := (batches w)[b := particles']\<rparr>
              in if requested then requestAnimationFrame (RafParticles b) w' else w'))
      else w)"

definition createExplosionParticles :: "real \<Rightarrow> real \<Rightarrow> world \<Rightarrow> world" where
  "createExplosionParticles x0 y0 w =
     (case spawnParticles x0 y0 (randoms w) of
        (particles, rs') \<Rightarrow>
          (let b = length (batches w);
               w1 = w\<lparr>randoms := rs', batches := batches w @ [particles]\<rparr>;
               w2 = w1\<lparr>particlesRef := Some b\<rparr>
           in animateParticlesAt b w2))"

text \<open>\<open>expandRing\<close> of ring \<open>k\<close>.\<close>

definition expandRingAt :: "nat \<Rightarrow> world \<Rightarrow> world" where
  "expandRingAt k w =
     (if k < length (rings w) then
        (case expandRing (rings w ! k) of
           (r', requested) \<Rightarrow>
             (let w' = w\<lparr>rings := (rings w)[k := r']\<rparr>
              in if requested then requestAnimationFrame (RafRing k) w' else w'))
      else w)"

text \<open>The callback of \<open>setTimeout\<close> in \<open>createExplosionRings\<close>.\<close>

definition spawnRing :: "real \<Rightarrow> real \<Rightarrow> world \<Rightarrow> world" where
  "spawnRing x0 y0 w =
     (let k = length (rings w) in expandRingAt k (w\<lparr>rings := rings w @ [newRing x0 y0]\<rparr>))"

text \<open>\<open>for (let i = 0; i < 5; i++) setTimeout(..., i * 100)\<close>.\<close>

definition createExplosionRings :: "real \<Rightarrow> real \<Rightarrow> world \<Rightarrow> world" where
  "createExplosionRings x0 y0 w = fold (\<lambda>i. setTimeout (SpawnRing x0 y0) (i * 100)) [0..<5] w"

text \<open>\<open>shake\<close> of shake \<open>k\<close>. The container the closure holds is the one
  \<open>containerRef\<close> holds.\<close>

definition shakeAt :: "nat \<Rightarrow> world \<Rightarrow> world" where
  "shakeAt k w =
     (if k < length (shakes w) then
        (case containerRef w of
           None \<Rightarrow> w
         | Some c \<Rightarrow>
             (case shake (shakes w ! k) c (randoms w) of
                (u', c', rs', requested) \<Rightarrow>
                  (let w' = w\<lparr>shakes := (shakes w)[k := u'], containerRef := Some c',
                               randoms := rs'\<rparr>
                   in if requested then requestAnimationFrame (RafShake k) w' else w')))
      else w)"

definition createScreenShake :: "real \<Rightarrow> real \<Rightarrow> world \<Rightarrow> world" where
  "createScreenShake i d w =
     (case containerRef w of
        None \<Rightarrow> w
      | Some c \<Rightarrow>
          (let k = length (shakes w) in shakeAt k (w\<lparr>shakes := shakes w @ [newShake c i d]\<rparr>)))"

subsection \<open>The command handlers\<close>

text \<open>\<open>handleShoot\<close>, as the Launch button calls it.\<close>

definition handleShoot :: "world \<Rightarrow> world" where
  "handleShoot w = (if gameState w \<noteq> Idle then w else setGameState Shooting w)"

text \<open>
  \<open>handleExplode\<close>. Its first argument is the value of \<open>gameState\<close> in the closure that
  is called: the Explode button calls the closure of the latest render, the frame loop
  the closure of the first render.
\<close>

definition handleExplode :: "phase \<Rightarrow> world \<Rightarrow> world" where
  "handleExplode gs w =
     (if gs \<noteq> Shooting \<and> gs \<noteq> Flying then w
      else
        (case (rocketRef w, explosionRef w, containerRef w) of
           (Some rocket, Some explosion, Some c) \<Rightarrow>
             (let w1 = createExplosionParticles (spr_x rocket) (spr_y rocket) w;
                  w2 = createExplosionRings (spr_x rocket) (spr_y rocket) w1;
                  w3 = createScreenShake 20 800 w2;
                  w4 = w3\<lparr>rocketRef :=
                         map_option (\<lambda>r. r\<lparr>spr_visible := False\<rparr>) (rocketRef w3)\<rparr>;
                  w5 = w4\<lparr>explosionRef :=
                         map_option (\<lambda>e. e\<lparr>ani_x := spr_x rocket, ani_y := spr_y rocket,
                           ani_visible := True, ani_scale := 4, ani_playing := True\<rparr>)
                           (explosionRef w4)\<rparr>;
                  w6 = setGameState Exploding w5;
                  w7 = w6\<lparr>console := console w6 @ [''BOOM!'']\<rparr>
              in w7\<lparr>explosionRef :=
                      map_option (\<lambda>e. e\<lparr>ani_onComplete := Some 2000\<rparr>) (explosionRef w7)\<rparr>)
         | _ \<Rightarrow> w))"

definition resetRocket :: "world \<Rightarrow> world" where
  "resetRocket w =
     (case (appRef w, rocketRef w, explosionRef w) of
        (Some app, Some rocket, Some explosion) \<Rightarrow>
          (let rocket1 = rocket\<lparr>spr_x := real_of_int (scr_width app) / 2\<rparr>;
               rocket2 = rocket1\<lparr>spr_y := real_of_int (scr_height app) - 20\<rparr>;
               rocket3 = rocket2\<lparr>spr_visible := True, spr_rotation := 0\<rparr>;
               w1 = w\<lparr>rocketRef := Some rocket3,
                       explosionRef := Some (explosion\<lparr>ani_visible := False\<rparr>)\<rparr>
           in setGameState Idle w1)
      | _ \<Rightarrow> w)"

subsection \<open>The frame loop\<close>

text \<open>The body of \<open>if (currentState === 'shooting')\<close>. The two calls of
  \<open>Date.now()\<close> take two elements of \<open>clock\<close>.\<close>

definition shootingBranch :: "screen \<Rightarrow> world \<Rightarrow> world" where
  "shootingBranch app w =
     (case rocketRef w of
        None \<Rightarrow> w
      | Some rocket \<Rightarrow>
          (let t1 = shd (clock w); t2 = shd (stl (clock w));
               r1 = rocket\<lparr>spr_y := spr_y rocket - 8\<rparr>;
               r2 = r1\<lparr>spr_x := spr_x r1 + sin (t1 * 0.01) * 1\<rparr>;
               r3 = r2\<lparr>spr_rotation := sin (t2 * 0.008) * 0.05\<rparr>;
               w1 = w\<lparr>rocketRef := Some r3, clock := stl (stl (clock w))\<rparr>
           in if spr_y r3 \<le> real_of_int (scr_height app) / 2
              then setGameState Flying w1 else w1))"

text \<open>
  The body of \<open>if (currentState === 'flying')\<close>. The ticker calls the
  \<open>updateAnimation\<close> of the first render (the effect that registers it has no
  dependencies), so the \<open>handleExplode\<close> called here is the one in whose closure
  \<open>gameState\<close> is \<open>'idle'\<close>.
\<close>

definition flyingBranch :: "world \<Rightarrow> world" where
  "flyingBranch w =
     (case rocketRef w of
        None \<Rightarrow> w
      | Some rocket \<Rightarrow>
          (let t1 = shd (clock w); t2 = shd (stl (clock w));
               r1 = rocket\<lparr>spr_y := spr_y rocket - 3\<rparr>;
               r2 = r1\<lparr>spr_x := spr_x r1 + sin (t1 * 0.005) * 2\<rparr>;
               r3 = r2\<lparr>spr_rotation := sin (t2 * 0.004) * 0.1\<rparr>;
               w1 = w\<lparr>rocketRef := Some r3, clock := stl (stl (clock w))\<rparr>
           in if spr_y r3 \<le> 50 then handleExplode Idle w1 else w1))"

definition updateAnimation :: "world \<Rightarrow> world" where
  "updateAnimation w =
     (case (rocketRef w, appRef w) of
        (Some rocket, Some app) \<Rightarrow>
          (let currentState = gameStateRef w;
               w1 = (if currentState = Shooting then shootingBranch app w else w)
           in if currentState = Flying then flyingBranch w1 else w1)
      | _ \<Rightarrow> w)"

subsection \<open>What the browser and the libraries call\<close>

text \<open>One animation frame: the callbacks requested since the last one run in the order
  of their requests; what they request is for the next frame.\<close>

definition runRaf :: "rafCallback \<Rightarrow> world \<Rightarrow> world" where
  "runRaf cb w =
     (case cb of
        RafParticles b \<Rightarrow> animateParticlesAt b w
      | RafShake k \<Rightarrow> shakeAt k w
      | RafRing k \<Rightarrow> expandRingAt k w)"

definition animationFrame :: "world \<Rightarrow> world" where
  "animationFrame w = fold runRaf (rafQueue w) (w\<lparr>rafQueue := []\<rparr>)"

text \<open>The explosion reaches its last frame: it stops and calls \<open>onComplete\<close>.\<close>

definition explosionComplete :: "world \<Rightarrow> world" where
  "explosionComplete w =
     (case explosionRef w of
        None \<Rightarrow> w
      | Some e \<Rightarrow>
          (if ani_playing e then
             (let w1 = w\<lparr>explosionRef := Some (e\<lparr>ani_playing := False\<rparr>)\<rparr>
              in case ani_onComplete e of
                   None \<Rightarrow> w1
                 | Some delay \<Rightarrow> setTimeout ResetRocket delay w1)
           else w))"

text \<open>The delay of the pending timeout \<open>k\<close> has elapsed: it leaves the list and its
  callback runs.\<close>

definition fireTimeout :: "nat \<Rightarrow> world \<Rightarrow> world" where
  "fireTimeout k w =
     (if k < length (timeouts w) then
        (let w1 = w\<lparr>timeouts := spliceOne k (timeouts w)\<rparr>
         in case snd (timeouts w ! k) of
              SpawnRing x0 y0 \<Rightarrow> spawnRing x0 y0 w1
            | ResetRocket \<Rightarrow> resetRocket w1)
      else w)"

subsection \<open>Initialisation (\<open>initPixi\<close>)\<close>

text \<open>The component after its first render, before \<open>initPixi\<close> has got anywhere.\<close>

definition mount :: "real stream \<Rightarrow> real stream \<Rightarrow> world" where
  "mount rs ts =
     \<lparr>gameState = Idle, gameStateRef = Idle, appRef = None, rocketRef = None,
      explosionRef = None, containerRef = None, particlesRef = None, batches = [],
      rings = [], shakes = [], rafQueue = [], timeouts = [], randoms = rs, clock = ts,
      console = []\<rparr>"

text \<open>\<open>initPixi\<close> after \<open>await app.init(...)\<close>, up to \<open>await Assets.load(...)\<close>.\<close>

definition appReady :: "int \<Rightarrow> int \<Rightarrow> world \<Rightarrow> world" where
  "appReady innerWidth innerHeight w =
     w\<lparr>appRef := Some \<lparr>scr_width = innerWidth, scr_height = innerHeight\<rparr>,
       containerRef := Some \<lparr>con_x = 0, con_y = 0\<rparr>\<rparr>"

definition initialRocket :: "screen \<Rightarrow> sprite" where
  "initialRocket app =
     \<lparr>spr_x = real_of_int (scr_width app) / 2, spr_y = real_of_int (scr_height app) - 120,
      spr_rotation = 0, spr_visible = True, spr_scale = 1\<rparr>"

definition initialExplosion :: animated where
  "initialExplosion =
     \<lparr>ani_x = 0, ani_y = 0, ani_visible = False, ani_scale = 2, ani_playing = False,
      ani_onComplete = None\<rparr>"

text \<open>\<open>createStarsBackground\<close>: a hundred stars, four calls of \<open>Math.random()\<close> each.
  Nothing reads a star again; only the random numbers used are kept.\<close>

definition createStarsBackground :: "world \<Rightarrow> world" where
  "createStarsBackground w = w\<lparr>randoms := sdrop 400 (randoms w)\<rparr>"

text \<open>\<open>initPixi\<close> after \<open>await Assets.load(...)\<close>: the rocket, the explosion, the
  stars; from here on the ticker calls \<open>updateAnimation\<close>.\<close>

definition assetsLoaded :: "world \<Rightarrow> world" where
  "assetsLoaded w =
     (case appRef w of
        None \<Rightarrow> w
      | Some app \<Rightarrow>
          createStarsBackground
            (w\<lparr>rocketRef := Some (initialRocket app), explosionRef := Some initialExplosion\<rparr>))"

text \<open>\<open>handleResize\<close>: \<open>app.renderer.resize(window.innerWidth, window.innerHeight)\<close>.\<close>

definition handleResize :: "int \<Rightarrow> int \<Rightarrow> world \<Rightarrow> world" where
  "handleResize innerWidth innerHeight w =
     w\<lparr>appRef := map_option (\<lambda>app. app\<lparr>scr_width := innerWidth, scr_height := innerHeight\<rparr>)
                   (appRef w)\<rparr>"

subsection \<open>Runs\<close>

text \<open>
  What can happen to the component. After each event React renders the new state and
  runs its effect before the next event is handled.
\<close>

datatype event =
    AppReady int int | AssetsLoaded | Resize int int
  | ClickLaunch | ClickExplode | ClickReset
  | Tick | AnimationFrame | ExplosionComplete | Timeout nat

fun step :: "event \<Rightarrow> world \<Rightarrow> world" where
  "step (AppReady iw ih) w = render (appReady iw ih w)"
| "step AssetsLoaded w = render (assetsLoaded w)"
| "step (Resize iw ih) w = render (handleResize iw ih w)"
| "step ClickLaunch w = render (handleShoot w)"
| "step ClickExplode w = render (handleExplode (gameState w) w)"
| "step ClickReset w = render (resetRocket w)"
| "step Tick w = render (updateAnimation w)"
| "step AnimationFrame w = render (animationFrame w)"
| "step ExplosionComplete w = render (explosionComplete w)"
| "step (Timeout k) w = render (fireTimeout k w)"

definition run :: "event list \<Rightarrow> world \<Rightarrow> world" where
  "run es w = fold step es w"

text \<open>The component once \<open>initPixi\<close> has finished, for a window of the given size.\<close>

definition started :: "int \<Rightarrow> int \<Rightarrow> real stream \<Rightarrow> real stream \<Rightarrow> world" where
  "started iw ih rs ts = run [AppReady iw ih, AssetsLoaded] (mount rs ts)"

section \<open>The variant without effects (\<open>App.tsx\<close>)\<close>

record world_App =
  gameState_App :: phase
  rocketPosition_App :: "real \<times> real"
  appRef_App :: "screen option"
  rocketRef_App :: "sprite option"
  explosionRef_App :: "animated option"

definition initialRocket_App :: "screen \<Rightarrow> sprite" where
  "initialRocket_App app =
     \<lparr>spr_x = real_of_int (scr_width app) / 2, spr_y = real_of_int (scr_height app) - 250,
      spr_rotation = - pi / 2, spr_visible = True, spr_scale = 2\<rparr>"

definition handleShoot_App :: "world_App \<Rightarrow> world_App" where
  "handleShoot_App w =
     (if gameState_App w \<noteq> Idle then w else w\<lparr>gameState_App := Shooting\<rparr>)"

definition handleExplode_App :: "world_App \<Rightarrow> world_App" where
  "handleExplode_App w =
     (if gameState_App w \<noteq> Shooting \<and> gameState_App w \<noteq> Flying then w
      else
        (case (rocketRef_App w, explosionRef_App w) of
           (Some rocket, Some explosion) \<Rightarrow>
             w\<lparr>rocketRef_App := Some (rocket\<lparr>spr_visible := False\<rparr>),
               explosionRef_App := Some (explosion
                 \<lparr>ani_x := spr_x rocket, ani_y := spr_y rocket, ani_visible := True,
                  ani_scale := 3, ani_playing := True, ani_onComplete := Some 1500\<rparr>),
               gameState_App := Exploding\<rparr>
         | _ \<Rightarrow> w))"

definition resetRocket_App :: "world_App \<Rightarrow> world_App" where
  "resetRocket_App w =
     (case (appRef_App w, rocketRef_App w, explosionRef_App w) of
        (Some app, Some rocket, Some explosion) \<Rightarrow>
          (let rocket1 = rocket\<lparr>spr_x := real_of_int (scr_width app) / 2\<rparr>;
               rocket2 = rocket1\<lparr>spr_y := real_of_int (scr_height app) - 50\<rparr>;
               rocket3 = rocket2\<lparr>spr_visible := True, spr_rotation := - pi / 2\<rparr>
           in w\<lparr>rocketRef_App := Some rocket3,
                explosionRef_App := Some (explosion\<lparr>ani_visible := False\<rparr>),
                rocketPosition_App := (spr_x rocket3, spr_y rocket3),
                gameState_App := Idle\<rparr>)
      | _ \<Rightarrow> w)"

section \<open>The variant with a preparing phase\<close>

datatype phase_Prep = P_Idle | P_Preparing | P_Shooting | P_Flying | P_Exploding

record world_Prep =
  gameState_Prep :: phase_Prep
  rocketPosition_Prep :: "real \<times> real"
  appRef_Prep :: "screen option"
  rocketRef_Prep :: "sprite option"
  explosionRef_Prep :: "animated option"

definition handleShoot_Prep :: "world_Prep \<Rightarrow> world_Prep" where
  "handleShoot_Prep w =
     (if gameState_Prep w \<noteq> P_Idle then w else w\<lparr>gameState_Prep := P_Preparing\<rparr>)"

definition handleExplode_Prep :: "world_Prep \<Rightarrow> world_Prep" where
  "handleExplode_Prep w =
     (if gameState_Prep w \<noteq> P_Preparing \<and> gameState_Prep w \<noteq> P_Shooting
         \<and> gameState_Prep w \<noteq> P_Flying then w
      else
        (case (rocketRef_Prep w, explosionRef_Prep w) of
           (Some rocket, Some explosion) \<Rightarrow>
             w\<lparr>rocketRef_Prep := Some (rocket\<lparr>spr_visible := False\<rparr>),
               explosionRef_Prep := Some (explosion
                 \<lparr>ani_x := spr_x rocket, ani_y := spr_y rocket, ani_visible := True,
                  ani_scale := 3, ani_playing := True, ani_onComplete := Some 1500\<rparr>),
               gameState_Prep := P_Exploding\<rparr>
         | _ \<Rightarrow> w))"

section \<open>The tick count of the specification\<close>

text \<open>The number of ticks the specification predicts for the ascent from \<open>y0\<close> to the
  middle of a viewport of height \<open>h\<close>: \<open>ceil((y - height/2)/8)\<close>. It is not part of
  the program; the frame loop is compared with it below.\<close>

definition predictedTicks :: "real \<Rightarrow> int \<Rightarrow> int" where
  "predictedTicks y0 h = \<lceil>(y0 - real_of_int h / 2) / 8\<rceil>"

section \<open>The objects of the scene come in a fixed order\<close>

text \<open>Which of the four refs are set. \<open>initPixi\<close> sets the application and the
  container first and the rocket and the explosion together, later; nothing clears a ref.
  \<open>sceneComplete\<close> is the invariant of every run that follows from it.\<close>

definition sceneShape :: "world \<Rightarrow> bool \<times> bool \<times> bool \<times> bool" where
  "sceneShape w = (appRef w \<noteq> None, rocketRef w \<noteq> None, explosionRef w \<noteq> None, containerRef w \<noteq> None)"

definition sceneComplete :: "world \<Rightarrow> bool" where
  "sceneComplete w \<longleftrightarrow>
     (case sceneShape w of (app, rocket, explosion, container) \<Rightarrow>
        (\<not> app \<or> container) \<and> (\<not> rocket \<or> (app \<and> explosion)))"

section \<open>The particle pass\<close>

declare forEachFrom.simps [simp del]

text \<open>
  The index loop with \<open>splice\<close> computes \<open>skipWalk\<close>: the part of the array before
  index \<open>k\<close> is done, the rest is still to be walked.
\<close>

lemma forEachFrom_skipWalk:
  "length ps \<le> len \<Longrightarrow> forEachFrom k len ps = take k ps @ skipWalk (drop k ps)"
proof (induction k len ps rule: forEachFrom.induct)
  case (1 k len ps)
  show ?case
  proof (cases "k < len")
    case False
    with "1.prems" show ?thesis by (subst forEachFrom.simps) simp
  next
    case klen: True
    show ?thesis
    proof (cases "k < length ps")
      case False
      with klen "1.IH"(2) "1.prems" show ?thesis by (subst forEachFrom.simps) simp
    next
      case kin: True
      then obtain p rest where d: "drop k ps = p # rest"
        by (metis Cons_nth_drop_Suc)
      then have pk: "ps ! k = p" and rest: "drop (Suc k) ps = rest"
        using kin by (metis Cons_nth_drop_Suc list.inject)+
      have unf: "forEachFrom k len ps = forEachFrom (Suc k) len (particleCallback ps k)"
        using klen kin by (subst forEachFrom.simps) simp
      show ?thesis
      proof (cases "p_life p \<le> 0")
        case dead: True
        then have cb: "particleCallback ps k = take k ps @ rest"
          by (simp add: particleCallback_def spliceOne_def pk rest)
        have len': "length (particleCallback ps k) \<le> len"
          using "1.prems" kin by (simp add: cb rest[symmetric])
        have "forEachFrom (Suc k) len (particleCallback ps k)
              = take (Suc k) (take k ps @ rest) @ skipWalk (drop (Suc k) (take k ps @ rest))"
          using "1.IH"(1)[OF klen kin len'] cb by simp
        also have "\<dots> = take k ps @ skipWalk (p # rest)"
          using kin dead by (cases rest) (simp_all add: min_def)
        finally show ?thesis using unf d by simp
      next
        case alive: False
        then have cb: "particleCallback ps k = ps[k := stepParticle p]"
          by (simp add: particleCallback_def pk)
        have len': "length (particleCallback ps k) \<le> len"
          using "1.prems" by (simp add: cb)
        have "forEachFrom (Suc k) len (particleCallback ps k)
              = take (Suc k) (ps[k := stepParticle p]) @ skipWalk (drop (Suc k) (ps[k := stepParticle p]))"
          using "1.IH"(1)[OF klen kin len'] cb by simp
        also have "\<dots> = take k ps @ stepParticle p # skipWalk rest"
          using kin by (simp add: take_Suc_conv_app_nth rest)
        also have "\<dots> = take k ps @ skipWalk (p # rest)"
          using alive by (cases rest) simp_all
        finally show ?thesis using unf d by simp
      qed
    qed
  qed
qed

lemma animateParticles_skipWalk:
  "animateParticles ps = (skipWalk ps, skipWalk ps \<noteq> [])"
  by (simp add: animateParticles_def forEachFrom_skipWalk Let_def)

lemma stepParticle_fields:
  "p_x (stepParticle p) = p_x p + p_vx p"
  "p_y (stepParticle p) = p_y p + p_vy p"
  "p_vy (stepParticle p) = p_vy p + p_gravity p"
  "p_life (stepParticle p) = p_life p - 0.02"
  "p_alpha (stepParticle p) = p_life p - 0.02"
  "p_scale_x (stepParticle p) = p_life p - 0.02"
  "p_scale_y (stepParticle p) = p_life p - 0.02"
  "p_vx (stepParticle p) = p_vx p"
  "p_gravity (stepParticle p) = p_gravity p"
  "p_color (stepParticle p) = p_color p"
  "p_radius (stepParticle p) = p_radius p"
  by (simp_all add: stepParticle_def Let_def)

lemma skipWalk_alive:
  "\<forall>p\<in>set ps. 0 < p_life p \<Longrightarrow> skipWalk ps = map stepParticle ps"
  by (induction ps rule: skipWalk.induct) auto

lemma skipWalk_dead:
  "\<forall>p\<in>set ps. p_life p \<le> 0 \<Longrightarrow>
     length (skipWalk ps) = length ps div 2 \<and> set (skipWalk ps) \<subseteq> set ps"
  by (induction ps rule: skipWalk.induct) auto

lemma skipWalk_survivor:
  "q \<in> set (skipWalk ps) \<Longrightarrow>
     q \<in> set ps \<or> (\<exists>p\<in>set ps. 0 < p_life p \<and> q = stepParticle p)"
  by (induction ps rule: skipWalk.induct) (auto split: if_splits)

lemma skipWalk_keeps_alive:
  "p \<in> set ps \<Longrightarrow> 0 < p_life p \<Longrightarrow>
     p \<in> set (skipWalk ps) \<or> stepParticle p \<in> set (skipWalk ps)"
  by (induction ps rule: skipWalk.induct) (auto split: if_splits)

lemma skipWalk_length: "length (skipWalk ps) \<le> length ps"
  by (induction ps rule: skipWalk.induct) auto

lemma skipWalk_head_dead:
  "p_life p \<le> 0 \<Longrightarrow> length (skipWalk (p # rest)) < length (p # rest)"
  using skipWalk_length [of "tl rest"] by (cases rest) auto

lemma funpow_step_life:
  "p_life ((stepParticle ^^ k) p) = p_life p - real k * 0.02"
  by (induction k) (simp_all add: stepParticle_fields field_simps)

lemma particleFrames_alive:
  "ps \<noteq> [] \<Longrightarrow> \<forall>p\<in>set ps. p_life p = L \<Longrightarrow> real k * 0.02 < L + 0.02 \<Longrightarrow>
     particleFrames k (ps, True) = (map (stepParticle ^^ k) ps, True)"
proof (induction k arbitrary: ps L)
  case 0
  then show ?case by simp
next
  case (Suc k)
  have Lpos: "0 < L" using Suc.prems(3) by (simp add: algebra_simps)
  then have pass: "animateParticles ps = (map stepParticle ps, True)"
    using Suc.prems(1,2) by (simp add: animateParticles_skipWalk skipWalk_alive)
  have "particleFrames k (map stepParticle ps, True)
        = (map (stepParticle ^^ k) (map stepParticle ps), True)"
  proof (rule Suc.IH [where L = "L - 0.02"])
    show "map stepParticle ps \<noteq> []" using Suc.prems(1) by simp
    show "\<forall>p\<in>set (map stepParticle ps). p_life p = L - 0.02"
      using Suc.prems(2) by (simp add: stepParticle_fields)
    show "real k * 0.02 < L - 0.02 + 0.02" using Suc.prems(3) by (simp add: algebra_simps)
  qed
  then show ?case by (simp add: pass funpow_swap1)
qed

lemma particleFrames_stopped: "particleFrames n (ps, False) = (ps, False)"
  by (induction n) simp_all

lemma animateParticles_dead:
  assumes "\<forall>p\<in>set ps. p_life p \<le> 0"
  shows "animateParticles ps = (skipWalk ps, skipWalk ps \<noteq> [])"
    and "length (skipWalk ps) = length ps div 2"
    and "\<forall>p\<in>set (skipWalk ps). p_life p \<le> 0"
  using skipWalk_dead [OF assms] assms by (auto simp: animateParticles_skipWalk)

lemma particleFrames_dead:
  "\<forall>p\<in>set ps. p_life p \<le> 0 \<Longrightarrow> length ps < 2 ^ n \<Longrightarrow>
     particleFrames n (ps, ps \<noteq> []) = ([], False)"
proof (induction n arbitrary: ps)
  case 0
  then show ?case by simp
next
  case (Suc n)
  show ?case
  proof (cases "ps = []")
    case True
    then show ?thesis by (simp add: particleFrames_stopped)
  next
    case False
    have "length (skipWalk ps) < 2 ^ n"
      using animateParticles_dead(2) [OF Suc.prems(1)] Suc.prems(2) by simp
    then have "particleFrames n (skipWalk ps, skipWalk ps \<noteq> []) = ([], False)"
      using Suc.IH animateParticles_dead(3) [OF Suc.prems(1)] by blast
    then show ?thesis
      using False by (simp add: animateParticles_dead(1) [OF Suc.prems(1)])
  qed
qed

lemma particleFrames_add:
  "particleFrames (m + n) st = particleFrames n (particleFrames m st)"
  by (induction m st rule: particleFrames.induct) simp_all

subsection \<open>A spawned batch\<close>

lemma newParticle_fields:
  "p_x (fst (newParticle x0 y0 rs)) = x0"
  "p_y (fst (newParticle x0 y0 rs)) = y0"
  "p_life (fst (newParticle x0 y0 rs)) = 1"
  "p_gravity (fst (newParticle x0 y0 rs)) = 0.3"
  "p_alpha (fst (newParticle x0 y0 rs)) = 1"
  by (simp_all add: newParticle_def Let_def)

lemma spawnLoop_spec:
  "\<exists>new. fst (spawnLoop n x0 y0 rs acc) = acc @ new \<and> length new = n \<and>
     (\<forall>p\<in>set new. p_x p = x0 \<and> p_y p = y0 \<and> p_life p = 1)"
proof (induction n arbitrary: rs acc)
  case 0
  then show ?case by simp
next
  case (Suc n)
  obtain p rs' where np: "newParticle x0 y0 rs = (p, rs')" by (cases "newParticle x0 y0 rs")
  then have p: "p_x p = x0 \<and> p_y p = y0 \<and> p_life p = 1"
    using newParticle_fields(1-3) [of x0 y0 rs] by simp
  from Suc.IH [of rs' "acc @ [p]"] obtain new where
    new: "fst (spawnLoop n x0 y0 rs' (acc @ [p])) = (acc @ [p]) @ new" "length new = n"
      "\<forall>p\<in>set new. p_x p = x0 \<and> p_y p = y0 \<and> p_life p = 1"
    by blast
  show ?case
  proof (intro exI conjI)
    show "fst (spawnLoop (Suc n) x0 y0 rs acc) = acc @ (p # new)" using np new(1) by simp
    show "length (p # new) = Suc n" using new(2) by simp
    show "\<forall>p\<in>set (p # new). p_x p = x0 \<and> p_y p = y0 \<and> p_life p = 1" using p new(3) by simp
  qed
qed

lemma spawnParticles_spec:
  "length (fst (spawnParticles x0 y0 rs)) = 50"
  "p \<in> set (fst (spawnParticles x0 y0 rs)) \<Longrightarrow> p_x p = x0 \<and> p_y p = y0 \<and> p_life p = 1"
  using spawnLoop_spec [of 50 x0 y0 rs "[]"] by (auto simp: spawnParticles_def)

lemma spawnLoop_randoms: "snd (spawnLoop n x0 y0 rs acc) = sdrop (4 * n) rs"
proof (induction n arbitrary: rs acc)
  case 0
  then show ?case by simp
next
  case (Suc n)
  have "snd (newParticle x0 y0 rs) = sdrop 4 rs"
    by (simp add: newParticle_def Let_def numeral_eq_Suc)
  then show ?case
    using Suc.IH by (cases "newParticle x0 y0 rs") (simp add: algebra_simps)
qed

lemma spawnParticles_randoms: "snd (spawnParticles x0 y0 rs) = sdrop 200 rs"
  by (simp add: spawnParticles_def spawnLoop_randoms)

lemma batch_first_50:
  assumes "k \<le> 50"
  shows "particleFrames k (fst (spawnParticles x0 y0 rs), True)
         = (map (stepParticle ^^ k) (fst (spawnParticles x0 y0 rs)), True)"
proof (rule particleFrames_alive [where L = 1])
  show "fst (spawnParticles x0 y0 rs) \<noteq> []" using spawnParticles_spec(1) [of x0 y0 rs] by auto
  show "\<forall>p\<in>set (fst (spawnParticles x0 y0 rs)). p_life p = 1" using spawnParticles_spec(2) by blast
  show "real k * 0.02 < 1 + 0.02" using assms by simp
qed

lemma spawned_pass:
  "animateParticles (fst (spawnParticles x0 y0 rs))
     = (map stepParticle (fst (spawnParticles x0 y0 rs)), True)"
  using batch_first_50 [of 1 x0 y0 rs] by simp

lemma createExplosionParticles_eq:
  "createExplosionParticles x0 y0 w =
     w\<lparr>randoms := snd (spawnParticles x0 y0 (randoms w)),
       batches := batches w @ [map stepParticle (fst (spawnParticles x0 y0 (randoms w)))],
       particlesRef := Some (length (batches w)),
       rafQueue := rafQueue w @ [RafParticles (length (batches w))]\<rparr>"
  using spawned_pass [of x0 y0 "randoms w"]
  by (cases "spawnParticles x0 y0 (randoms w)")
     (simp add: createExplosionParticles_def animateParticlesAt_def requestAnimationFrame_def
        Let_def)

lemma batch_after_56:
  assumes "56 \<le> n"
  shows "particleFrames n (fst (spawnParticles x0 y0 rs), True) = ([], False)"
proof -
  let ?B = "fst (spawnParticles x0 y0 rs)"
  let ?D = "map (stepParticle ^^ 50) ?B"
  have dead: "\<forall>p\<in>set ?D. p_life p \<le> 0"
    using spawnParticles_spec(2) [of _ x0 y0 rs] by (auto simp: funpow_step_life)
  have len: "length ?D = 50" by (simp add: spawnParticles_spec(1))
  then have ne: "?D \<noteq> []" by auto
  have "length ?D < 2 ^ 6" using len by simp
  from particleFrames_dead [OF dead this] ne
  have six: "particleFrames 6 (?D, True) = ([], False)" by simp
  obtain m where n: "n = 56 + m" using assms le_Suc_ex by blast
  have "particleFrames 56 (?B, True) = particleFrames 6 (particleFrames 50 (?B, True))"
    using particleFrames_add [of 50 6 "(?B, True)"] by simp
  also have "\<dots> = ([], False)"
    by (simp only: batch_first_50 [OF order_refl] six)
  finally show ?thesis
    unfolding n particleFrames_add by (simp only: particleFrames_stopped)
qed

lemma Max_life_le:
  "ps \<noteq> [] \<Longrightarrow> \<forall>p\<in>set ps. p_life p \<le> c \<Longrightarrow> Max (set (map p_life ps)) \<le> c"
  by (simp add: Max_le_iff)

lemma batch_tick_50_51:
  "particleFrames 50 (fst (spawnParticles cx cy rs), True)
     = (map (stepParticle ^^ 50) (fst (spawnParticles cx cy rs)), True)"
  "length (map (stepParticle ^^ 50) (fst (spawnParticles cx cy rs))) = 50"
  "\<forall>p\<in>set (map (stepParticle ^^ 50) (fst (spawnParticles cx cy rs))). p_life p \<le> 0"
  "fst (particleFrames 51 (fst (spawnParticles cx cy rs), True))
     = skipWalk (map (stepParticle ^^ 50) (fst (spawnParticles cx cy rs)))"
  "length (skipWalk (map (stepParticle ^^ 50) (fst (spawnParticles cx cy rs)))) = 25"
  "\<forall>p\<in>set (skipWalk (map (stepParticle ^^ 50) (fst (spawnParticles cx cy rs)))). p_life p \<le> 0"
proof -
  let ?B = "fst (spawnParticles cx cy rs)"
  let ?D = "map (stepParticle ^^ 50) ?B"
  show eq: "particleFrames 50 (?B, True) = (?D, True)"
    by (rule batch_first_50) simp
  show dead: "\<forall>p\<in>set ?D. p_life p \<le> 0"
    using spawnParticles_spec(2) [of _ cx cy rs] by (auto simp: funpow_step_life)
  show len: "length ?D = 50" by (simp add: spawnParticles_spec(1))
  have "particleFrames 51 (?B, True) = particleFrames 1 (particleFrames 50 (?B, True))"
    using particleFrames_add [of 50 1 "(?B, True)"] by simp
  also have "\<dots> = animateParticles ?D"
    by (simp only: eq One_nat_def particleFrames.simps if_True)
  finally show "fst (particleFrames 51 (?B, True)) = skipWalk ?D"
    using animateParticles_dead(1) [OF dead] by simp
  show "length (skipWalk ?D) = 25"
    using animateParticles_dead(2) [OF dead] len by simp
  show "\<forall>p\<in>set (skipWalk ?D). p_life p \<le> 0"
    by (rule animateParticles_dead(3) [OF dead])
qed

lemma skipWalk_alive_prefix:
  "\<forall>a\<in>set pre. 0 < p_life a \<Longrightarrow> skipWalk (pre @ xs) = map stepParticle pre @ skipWalk xs"
proof (induction pre)
  case Nil
  then show ?case by simp
next
  case (Cons a pre)
  then show ?case by (cases "pre @ xs") auto
qed

lemma skipWalk_dead_head:
  "p_life d \<le> 0 \<Longrightarrow>
     length (skipWalk (d # rest)) \<le> length rest \<and>
     (\<forall>q\<in>set (skipWalk (d # rest)).
        q \<in> set rest \<or> (\<exists>a\<in>set rest. 0 < p_life a \<and> q = stepParticle a))"
  using skipWalk_length [of "tl rest"] skipWalk_survivor [of _ "tl rest"]
  by (cases rest) auto

lemma first_dead_removed:
  assumes "\<forall>a\<in>set pre. 0 < p_life a" and "p_life d \<le> 0"
  shows "\<exists>suffix. fst (animateParticles (pre @ d # rest)) = map stepParticle pre @ suffix \<and>
           length suffix \<le> length rest \<and>
           (\<forall>q\<in>set suffix. q \<in> set rest \<or> (\<exists>a\<in>set rest. 0 < p_life a \<and> q = stepParticle a))"
  using skipWalk_dead_head [OF assms(2), of rest]
  by (simp add: animateParticles_skipWalk skipWalk_alive_prefix [OF assms(1)])

lemma particleCallback_cases:
  "p_life (ps ! i) \<le> 0 \<Longrightarrow> particleCallback ps i = take i ps @ drop (Suc i) ps"
  "0 < p_life (ps ! i) \<Longrightarrow> particleCallback ps i = ps[i := stepParticle (ps ! i)]"
  by (simp_all add: particleCallback_def spliceOne_def)

lemma forEachFrom_cases:
  "k < len \<Longrightarrow> k < length ps \<Longrightarrow> forEachFrom k len ps = forEachFrom (Suc k) len (particleCallback ps k)"
  "k < len \<Longrightarrow> length ps \<le> k \<Longrightarrow> forEachFrom k len ps = forEachFrom (Suc k) len ps"
  "len \<le> k \<Longrightarrow> forEachFrom k len ps = ps"
  by (subst forEachFrom.simps, simp)+

lemma spawnLoop_map:
  "fst (spawnLoop n x0 y0 rs acc)
     = acc @ map (\<lambda>i. fst (newParticle x0 y0 (sdrop (4 * i) rs))) [0..<n]"
proof (induction n arbitrary: rs acc)
  case 0
  then show ?case by simp
next
  case (Suc n)
  have sn: "snd (newParticle x0 y0 rs) = sdrop 4 rs"
    by (simp add: newParticle_def Let_def numeral_eq_Suc)
  have upt: "[0..<Suc n] = 0 # map Suc [0..<n]"
    by (simp only: upt_conv_Cons zero_less_Suc map_Suc_upt if_True)
  have "fst (spawnLoop (Suc n) x0 y0 rs acc)
        = fst (spawnLoop n x0 y0 (sdrop 4 rs) (acc @ [fst (newParticle x0 y0 rs)]))"
    using sn by (cases "newParticle x0 y0 rs") simp
  also have "\<dots> = (acc @ [fst (newParticle x0 y0 rs)])
        @ map (\<lambda>i. fst (newParticle x0 y0 (sdrop (4 * i) (sdrop 4 rs)))) [0..<n]"
    by (rule Suc.IH)
  also have "\<dots> = acc @ map (\<lambda>i. fst (newParticle x0 y0 (sdrop (4 * i) rs))) [0..<Suc n]"
    unfolding upt by (simp add: sdrop_add comp_def add.commute)
  finally show ?case .
qed

lemma spawnParticles_nth:
  "i < 50 \<Longrightarrow> fst (spawnParticles x0 y0 rs) ! i = fst (newParticle x0 y0 (sdrop (4 * i) rs))"
  by (simp add: spawnParticles_def spawnLoop_map)

lemma batch_empties:
  "\<exists>n. \<forall>m. n \<le> m \<longrightarrow> particleFrames m (fst (spawnParticles x0 y0 rs), True) = ([], False)"
  using batch_after_56 [of _ x0 y0 rs] by blast

lemma new_batch_positions:
  assumes "q \<in> set (map stepParticle (fst (spawnParticles x0 y0 rs)))"
  shows "p_x q = x0 + p_vx q \<and> p_y q = y0 + p_vy q - p_gravity q \<and> p_life q = 0.98"
proof -
  from assms obtain p where p: "p \<in> set (fst (spawnParticles x0 y0 rs))" and q: "q = stepParticle p"
    by auto
  from spawnParticles_spec(2) [OF p] show ?thesis
    by (simp add: q stepParticle_fields)
qed

lemma newParticle_velocity:
  "p_vx (fst (newParticle x0 y0 rs)) = (shd (sdrop 2 rs) - 0.5) * 20"
  "p_vy (fst (newParticle x0 y0 rs)) = (shd (sdrop 3 rs) - 0.5) * 20"
  by (simp_all add: newParticle_def Let_def numeral_eq_Suc)

lemma sdrop_sconst_eq: "sdrop n (sconst x) = sconst x"
  by (induction n) simp_all

text \<open>
  C6 (as amended). A pass of the particle tick visits the array by index: it calls the
  callback at every index below the length the array had at the start that the array
  still has. A particle it visits with positive life gets its velocity added to its
  position and its gravity to its vertical velocity, its life decreased by exactly 0.02,
  and its opacity and scale set to the resulting life; when every particle of the array
  has positive life, every particle is stepped so. A particle it visits with life
  \<open>\<le> 0\<close> is removed instead, at whatever index it is: the array loses exactly that
  element. So a particle stays in the array through the pass in which its life reaches
  \<open>\<le> 0\<close> and leaves in a later pass that visits it; the first such particle of the
  array is visited, and removed, in every pass. A particle with positive life is never
  removed, and every particle of the array after a pass is a particle of the array before
  it, unchanged or stepped, so that life never increases.
\<close>

theorem particle_tick_effect:
  "p_life (fst (newParticle cx cy rs)) = 1 \<and>
   p_gravity (fst (newParticle cx cy rs)) = 0.3 \<and>
   p_x (stepParticle p) = p_x p + p_vx p \<and>
   p_y (stepParticle p) = p_y p + p_vy p \<and>
   p_vy (stepParticle p) = p_vy p + p_gravity p \<and>
   p_vx (stepParticle p) = p_vx p \<and>
   p_life (stepParticle p) = p_life p - 0.02 \<and>
   p_alpha (stepParticle p) = p_life (stepParticle p) \<and>
   p_scale_x (stepParticle p) = p_life (stepParticle p) \<and>
   p_scale_y (stepParticle p) = p_life (stepParticle p) \<and>
   p_life (stepParticle p) \<le> p_life p \<and>
   (i < length ps \<and> 0 < p_life (ps ! i) \<longrightarrow>
      particleCallback ps i = ps[i := stepParticle (ps ! i)]) \<and>
   (i < length ps \<and> p_life (ps ! i) \<le> 0 \<longrightarrow>
      particleCallback ps i = take i ps @ drop (Suc i) ps \<and>
      length (particleCallback ps i) = length ps - 1) \<and>
   (k < len \<and> k < length ps \<longrightarrow>
      forEachFrom k len ps = forEachFrom (Suc k) len (particleCallback ps k)) \<and>
   (k < len \<and> length ps \<le> k \<longrightarrow> forEachFrom k len ps = forEachFrom (Suc k) len ps) \<and>
   (len \<le> k \<longrightarrow> forEachFrom k len ps = ps) \<and>
   fst (animateParticles ps) = forEachFrom 0 (length ps) ps \<and>
   ((\<forall>a\<in>set ps. 0 < p_life a) \<longrightarrow> animateParticles ps = (map stepParticle ps, ps \<noteq> [])) \<and>
   ((\<forall>a\<in>set pre. 0 < p_life a) \<and> p_life d \<le> 0 \<longrightarrow>
      fst (animateParticles (pre @ [d])) = map stepParticle pre \<and>
      (\<exists>suffix. fst (animateParticles (pre @ d # ps)) = map stepParticle pre @ suffix \<and>
         length suffix \<le> length ps \<and>
         (\<forall>q\<in>set suffix. q \<in> set ps \<or> (\<exists>a\<in>set ps. 0 < p_life a \<and> q = stepParticle a)))) \<and>
   (\<forall>b\<in>set (fst (animateParticles ps)).
      b \<in> set ps \<or> (\<exists>a\<in>set ps. 0 < p_life a \<and> b = stepParticle a)) \<and>
   (\<forall>a\<in>set ps. 0 < p_life a \<longrightarrow>
      a \<in> set (fst (animateParticles ps)) \<or> stepParticle a \<in> set (fst (animateParticles ps))) \<and>
   (p_life p \<le> 0 \<longrightarrow> animateParticles [p] = ([], False)) \<and>
   (p_life p \<le> 0 \<longrightarrow> length (fst (animateParticles (p # ps))) < length (p # ps))"
proof (intro conjI impI ballI)
  assume "i < length ps \<and> 0 < p_life (ps ! i)"
  then show "particleCallback ps i = ps[i := stepParticle (ps ! i)]"
    by (simp add: particleCallback_cases(2))
next
  assume a: "i < length ps \<and> p_life (ps ! i) \<le> 0"
  then show "particleCallback ps i = take i ps @ drop (Suc i) ps"
    by (simp add: particleCallback_cases(1))
  from a show "length (particleCallback ps i) = length ps - 1"
    by (simp add: particleCallback_cases(1))
next
  assume "k < len \<and> k < length ps"
  then show "forEachFrom k len ps = forEachFrom (Suc k) len (particleCallback ps k)"
    by (simp add: forEachFrom_cases(1))
next
  assume "k < len \<and> length ps \<le> k"
  then show "forEachFrom k len ps = forEachFrom (Suc k) len ps"
    by (simp add: forEachFrom_cases(2))
next
  assume "len \<le> k"
  then show "forEachFrom k len ps = ps"
    by (rule forEachFrom_cases(3))
next
  show "fst (animateParticles ps) = forEachFrom 0 (length ps) ps"
    by (simp add: animateParticles_def Let_def)
next
  assume "\<forall>a\<in>set ps. 0 < p_life a"
  then show "animateParticles ps = (map stepParticle ps, ps \<noteq> [])"
    by (simp add: animateParticles_skipWalk skipWalk_alive)
next
  assume a: "(\<forall>a\<in>set pre. 0 < p_life a) \<and> p_life d \<le> 0"
  then show "fst (animateParticles (pre @ [d])) = map stepParticle pre"
    by (simp add: animateParticles_skipWalk skipWalk_alive_prefix)
  from a show "\<exists>suffix. fst (animateParticles (pre @ d # ps)) = map stepParticle pre @ suffix \<and>
         length suffix \<le> length ps \<and>
         (\<forall>q\<in>set suffix. q \<in> set ps \<or> (\<exists>a\<in>set ps. 0 < p_life a \<and> q = stepParticle a))"
    using first_dead_removed [of pre d ps] by blast
next
  fix b assume "b \<in> set (fst (animateParticles ps))"
  then show "b \<in> set ps \<or> (\<exists>a\<in>set ps. 0 < p_life a \<and> b = stepParticle a)"
    using skipWalk_survivor [of b ps] by (simp add: animateParticles_skipWalk)
next
  fix a assume "a \<in> set ps" "0 < p_life a"
  then show "a \<in> set (fst (animateParticles ps)) \<or> stepParticle a \<in> set (fst (animateParticles ps))"
    using skipWalk_keeps_alive [of a ps] by (simp add: animateParticles_skipWalk)
next
  assume "p_life p \<le> 0"
  then show "animateParticles [p] = ([], False)"
    by (simp add: animateParticles_skipWalk)
next
  assume "p_life p \<le> 0"
  then show "length (fst (animateParticles (p # ps))) < length (p # ps)"
    using skipWalk_head_dead [of p ps] by (simp add: animateParticles_skipWalk)
qed (simp_all add: stepParticle_fields newParticle_fields)

text \<open>
  The theorem at a new particle, at the same particle after fifty steps, and at the array
  of the two: the callback at index 1 removes the second, and the pass leaves the first,
  stepped.
\<close>

theorem particle_tick_effect_witness:
  "0 < p_life (fst (newParticle 400 300 (sconst (1/2)))) \<and>
   animateParticles [fst (newParticle 400 300 (sconst (1/2)))]
     = ([stepParticle (fst (newParticle 400 300 (sconst (1/2))))], True) \<and>
   p_life (stepParticle (fst (newParticle 400 300 (sconst (1/2))))) = 0.98 \<and>
   p_life ((stepParticle ^^ 50) (fst (newParticle 400 300 (sconst (1/2))))) \<le> 0 \<and>
   animateParticles [(stepParticle ^^ 50) (fst (newParticle 400 300 (sconst (1/2))))] = ([], False) \<and>
   particleCallback
       [fst (newParticle 400 300 (sconst (1/2))),
        (stepParticle ^^ 50) (fst (newParticle 400 300 (sconst (1/2))))] 1
     = [fst (newParticle 400 300 (sconst (1/2)))] \<and>
   particleCallback
       [fst (newParticle 400 300 (sconst (1/2))),
        (stepParticle ^^ 50) (fst (newParticle 400 300 (sconst (1/2))))] 0
     = [stepParticle (fst (newParticle 400 300 (sconst (1/2)))),
        (stepParticle ^^ 50) (fst (newParticle 400 300 (sconst (1/2))))] \<and>
   fst (animateParticles
       [fst (newParticle 400 300 (sconst (1/2))),
        (stepParticle ^^ 50) (fst (newParticle 400 300 (sconst (1/2))))])
     = [stepParticle (fst (newParticle 400 300 (sconst (1/2))))]"
proof -
  let ?a = "fst (newParticle 400 300 (sconst (1/2)))"
  let ?d = "(stepParticle ^^ 50) (fst (newParticle 400 300 (sconst (1/2))))"
  have alive: "0 < p_life ?a" by (simp add: newParticle_fields)
  have dead: "p_life ?d \<le> 0" by (simp add: newParticle_fields funpow_step_life)
  note t1 = particle_tick_effect [where p = ?a and ps = "[?a]" and cx = 400 and cy = 300
      and rs = "sconst (1/2)" and i = 0 and k = 1 and len = 1 and pre = "[?a]" and d = ?d]
  note t2 = particle_tick_effect [where p = ?d and ps = "[?a, ?d]" and cx = 400 and cy = 300
      and rs = "sconst (1/2)" and i = 1 and k = 0 and len = 2 and pre = "[]" and d = ?d]
  note t3 = particle_tick_effect [where p = ?d and ps = "[?a, ?d]" and cx = 400 and cy = 300
      and rs = "sconst (1/2)" and i = 0 and k = 2 and len = 2 and pre = "[]" and d = ?d]
  from t1 alive have 1: "animateParticles [?a] = ([stepParticle ?a], True)" by simp
  from t1 have 2: "p_life (stepParticle ?a) = 0.98" by (simp add: newParticle_fields)
  from t2 dead have 3: "animateParticles [?d] = ([], False)" by blast
  from t2 dead have 4: "particleCallback [?a, ?d] 1 = [?a]" by simp
  from t3 alive have 5: "particleCallback [?a, ?d] 0 = [stepParticle ?a, ?d]" by simp
  from t1 alive dead have 6: "fst (animateParticles ([?a] @ [?d])) = map stepParticle [?a]"
    by simp
  show ?thesis using alive dead 1 2 3 4 5 6 by simp
qed

text \<open>
  C6 as stated fails: after the fiftieth call of \<open>animateParticles\<close> no particle of
  a batch has life above 0, and all fifty are still in the array.
\<close>

theorem particle_kept_after_life_ran_out:
  "length (fst (particleFrames 50 (fst (spawnParticles 0 0 (sconst 0)), True))) = 50 \<and>
   Max (set (map p_life (fst (particleFrames 50 (fst (spawnParticles 0 0 (sconst 0)), True))))) \<le> 0"
proof -
  note b = batch_tick_50_51 [of 0 0 "sconst 0"]
  have n50: "map (stepParticle ^^ 50) (fst (spawnParticles 0 0 (sconst 0))) \<noteq> []"
    using b(2) by auto
  show ?thesis
    using b(2) Max_life_le [OF n50 b(3)]
    by (simp only: b(1) fst_conv)
qed

text \<open>
  C2 (as amended). A batch of 50 spawned at a detonation still holds all 50 particles
  after each of its first 50 ticks, with life \<open>1 - 0.02 * k\<close> after tick \<open>k\<close> (so
  life 0 after tick 50) and a further tick requested; tick 51 is the first that removes
  particles, and after finitely many ticks the batch is empty; a tick requests a further
  animation callback exactly when it leaves the array non-empty, so that none is
  requested once the array is empty, and without a request there is no further tick. The
  first tick is the call of \<open>animateParticles\<close> at the end of
  \<open>createExplosionParticles\<close>. In the state of the component, a tick of batch
  \<open>b\<close> replaces its array by the result of the pass and adds the batch's callback to
  the queue of the next frame exactly when the result is not empty.
\<close>

theorem particle_batch_lifetime:
  "(k \<le> 50 \<longrightarrow>
      length (fst (particleFrames k (fst (spawnParticles cx cy rs), True))) = 50 \<and>
      snd (particleFrames k (fst (spawnParticles cx cy rs), True)) \<and>
      (\<forall>p\<in>set (fst (particleFrames k (fst (spawnParticles cx cy rs), True))).
         p_life p = 1 - real k * 0.02)) \<and>
   length (fst (particleFrames 51 (fst (spawnParticles cx cy rs), True))) < 50 \<and>
   (\<exists>n. \<forall>m. n \<le> m \<longrightarrow>
      particleFrames m (fst (spawnParticles cx cy rs), True) = ([], False)) \<and>
   (snd (animateParticles ps) \<longleftrightarrow> fst (animateParticles ps) \<noteq> []) \<and>
   particleFrames j (ps, False) = (ps, False) \<and>
   (b < length (batches w) \<longrightarrow>
      batches (animateParticlesAt b w) = (batches w)[b := fst (animateParticles (batches w ! b))] \<and>
      rafQueue (animateParticlesAt b w)
        = rafQueue w @ (if fst (animateParticles (batches w ! b)) = [] then [] else [RafParticles b]))"
proof (intro conjI impI)
  assume k: "k \<le> 50"
  note eq = batch_first_50 [OF k, of cx cy rs]
  show "length (fst (particleFrames k (fst (spawnParticles cx cy rs), True))) = 50"
    by (simp add: eq spawnParticles_spec(1))
  show "snd (particleFrames k (fst (spawnParticles cx cy rs), True))"
    by (simp add: eq)
  show "\<forall>p\<in>set (fst (particleFrames k (fst (spawnParticles cx cy rs), True))).
          p_life p = 1 - real k * 0.02"
    using spawnParticles_spec(2) [of _ cx cy rs] by (auto simp: eq funpow_step_life)
next
  show "length (fst (particleFrames 51 (fst (spawnParticles cx cy rs), True))) < 50"
    by (simp only: batch_tick_50_51(4,5)) 
next
  show "\<exists>n. \<forall>m. n \<le> m \<longrightarrow>
      particleFrames m (fst (spawnParticles cx cy rs), True) = ([], False)"
    by (rule batch_empties)
next
  show "snd (animateParticles ps) \<longleftrightarrow> fst (animateParticles ps) \<noteq> []"
    by (simp add: animateParticles_skipWalk)
next
  show "particleFrames j (ps, False) = (ps, False)"
    by (rule particleFrames_stopped)
next
  assume b: "b < length (batches w)"
  then show "batches (animateParticlesAt b w)
               = (batches w)[b := fst (animateParticles (batches w ! b))]"
    by (simp add: animateParticlesAt_def animateParticles_skipWalk requestAnimationFrame_def Let_def)
  from b show "rafQueue (animateParticlesAt b w)
        = rafQueue w @ (if fst (animateParticles (batches w ! b)) = [] then [] else [RafParticles b])"
    by (simp add: animateParticlesAt_def animateParticles_skipWalk requestAnimationFrame_def Let_def)
qed

text \<open>
  The theorem for a batch spawned at (400, 300): full after 50 ticks, empty after some
  number of ticks; its second tick, in the state, requests a third.
\<close>

theorem particle_batch_lifetime_witness:
  "(50::nat) \<le> 50 \<and>
   length (fst (particleFrames 50 (fst (spawnParticles 400 300 (sconst (1/2))), True))) = 50 \<and>
   snd (particleFrames 50 (fst (spawnParticles 400 300 (sconst (1/2))), True)) \<and>
   (\<exists>n. particleFrames n (fst (spawnParticles 400 300 (sconst (1/2))), True) = ([], False)) \<and>
   (0::nat) < length (batches (createExplosionParticles 400 300 (mount (sconst (1/2)) (sconst 0)))) \<and>
   rafQueue (animateParticlesAt 0 (createExplosionParticles 400 300 (mount (sconst (1/2)) (sconst 0))))
     = [RafParticles 0, RafParticles 0]"
proof -
  let ?w = "createExplosionParticles 400 300 (mount (sconst (1/2)) (sconst 0))"
  let ?B = "fst (spawnParticles 400 300 (sconst (1/2)))"
  note t = particle_batch_lifetime [where k = 50 and cx = 400 and cy = 300 and rs = "sconst (1/2)"
      and ps = "[]" and j = 0 and b = 0 and w = ?w]
  have w: "batches ?w = [map stepParticle ?B]" "rafQueue ?w = [RafParticles 0]"
    by (simp_all add: createExplosionParticles_eq mount_def)
  have "particleFrames 2 (?B, True) = (map (stepParticle ^^ 2) ?B, True)"
    by (rule batch_first_50) simp
  moreover have "particleFrames 2 (?B, True) = animateParticles (map stepParticle ?B)"
    by (simp add: numeral_2_eq_2 spawned_pass)
  ultimately have second: "fst (animateParticles (map stepParticle ?B)) = map (stepParticle ^^ 2) ?B"
    by simp
  have ne: "map (stepParticle ^^ 2) ?B \<noteq> []"
    using spawnParticles_spec(1) [of 400 300 "sconst (1/2)"] by auto
  have 1: "0 < length (batches ?w)" by (simp add: w)
  with t have "rafQueue (animateParticlesAt 0 ?w)
        = rafQueue ?w @ (if fst (animateParticles (batches ?w ! 0)) = [] then [] else [RafParticles 0])"
    by blast
  then have 2: "rafQueue (animateParticlesAt 0 ?w) = [RafParticles 0, RafParticles 0]"
    using ne by (simp add: w second)
  from t have 3: "length (fst (particleFrames 50 (?B, True))) = 50 \<and>
      snd (particleFrames 50 (?B, True))"
    by simp
  from t have 4: "\<exists>n. particleFrames n (?B, True) = ([], False)"
    by blast
  show ?thesis using 1 2 3 4 by simp
qed

text \<open>
  C2 as stated fails: after 50 ticks no particle has life above 0, yet the array still
  has its 50 particles and a further tick is requested.
\<close>

theorem particle_batch_full_after_50_ticks:
  "length (fst (particleFrames 50 (fst (spawnParticles 400 300 (sconst (1/2))), True))) = 50 \<and>
   Max (set (map p_life
     (fst (particleFrames 50 (fst (spawnParticles 400 300 (sconst (1/2))), True))))) \<le> 0 \<and>
   snd (particleFrames 50 (fst (spawnParticles 400 300 (sconst (1/2))), True)) = True"
proof -
  note b = batch_tick_50_51 [of 400 300 "sconst (1/2)"]
  have n50: "map (stepParticle ^^ 50) (fst (spawnParticles 400 300 (sconst (1/2)))) \<noteq> []"
    using b(2) by auto
  show ?thesis
    using b(2) Max_life_le [OF n50 b(3)]
    by (simp only: b(1) fst_conv snd_conv simp_thms)
qed

section \<open>The ring and the shake\<close>

lemma expandRing_fields:
  "r_scale_x (fst (expandRing r)) = r_scale_x r + 0.3"
  "r_scale_y (fst (expandRing r)) = r_scale_y r + 0.3"
  "r_alpha (fst (expandRing r)) = r_alpha r - 0.03"
  "r_x (fst (expandRing r)) = r_x r"
  "r_y (fst (expandRing r)) = r_y r"
  "r_parent (fst (expandRing r)) \<longleftrightarrow> r_parent r \<and> 0 < r_alpha r - 0.03"
  "snd (expandRing r) \<longleftrightarrow> 0 < r_alpha r - 0.03"
  by (simp_all add: expandRing_def Let_def)

lemma ringFrames_stopped: "ringFrames n (r, False) = (r, False)"
  by (induction n) simp_all

lemma ringFrames_add: "ringFrames (m + n) st = ringFrames n (ringFrames m st)"
  by (induction m st rule: ringFrames.induct) simp_all

lemma ringFrames_running:
  "\<forall>j<k. 0 < r_alpha r - 0.03 * real (Suc j) \<Longrightarrow>
     ringFrames k (r, True)
       = (r\<lparr>r_scale_x := r_scale_x r + 0.3 * real k, r_scale_y := r_scale_y r + 0.3 * real k,
            r_alpha := r_alpha r - 0.03 * real k\<rparr>, True)"
proof (induction k arbitrary: r)
  case 0
  then show ?case by simp
next
  case (Suc k)
  have first: "0 < r_alpha r - 0.03" using Suc.prems [rule_format, of 0] by simp
  let ?r1 = "r\<lparr>r_scale_x := r_scale_x r + 0.3, r_scale_y := r_scale_y r + 0.3,
               r_alpha := r_alpha r - 0.03\<rparr>"
  have step1: "expandRing r = (?r1, True)" using first by (simp add: expandRing_def Let_def)
  have "\<forall>j<k. 0 < r_alpha ?r1 - 0.03 * real (Suc j)"
  proof (intro allI impI)
    fix j assume "j < k"
    then show "0 < r_alpha ?r1 - 0.03 * real (Suc j)"
      using Suc.prems [rule_format, of "Suc j"] by (simp add: field_simps)
  qed
  from Suc.IH [OF this] show ?case
    by (simp add: step1 field_simps)
qed

lemma new_ring_lifetime:
  "ringFrames 33 (newRing x0 y0, True)
     = (\<lparr>r_x = x0, r_y = y0, r_alpha = 0.01, r_scale_x = 10.9, r_scale_y = 10.9, r_parent = True\<rparr>, True)"
  "ringFrames 34 (newRing x0 y0, True)
     = (\<lparr>r_x = x0, r_y = y0, r_alpha = - 0.02, r_scale_x = 11.2, r_scale_y = 11.2, r_parent = False\<rparr>, False)"
proof -
  have run: "\<forall>j<33. 0 < r_alpha (newRing x0 y0) - 0.03 * real (Suc j)"
  proof (intro allI impI)
    fix j :: nat assume "j < 33"
    then have "real (Suc j) \<le> 33" by simp
    then show "0 < r_alpha (newRing x0 y0) - 0.03 * real (Suc j)"
      by (simp add: newRing_def)
  qed
  show a: "ringFrames 33 (newRing x0 y0, True)
     = (\<lparr>r_x = x0, r_y = y0, r_alpha = 0.01, r_scale_x = 10.9, r_scale_y = 10.9, r_parent = True\<rparr>, True)"
    using ringFrames_running [OF run] by (simp add: newRing_def)
  have "ringFrames 34 (newRing x0 y0, True) = ringFrames 1 (ringFrames 33 (newRing x0 y0, True))"
    using ringFrames_add [of 33 1 "(newRing x0 y0, True)"] by simp
  then show "ringFrames 34 (newRing x0 y0, True)
     = (\<lparr>r_x = x0, r_y = y0, r_alpha = - 0.02, r_scale_x = 11.2, r_scale_y = 11.2, r_parent = False\<rparr>, False)"
    by (simp add: a expandRing_def Let_def)
qed

lemma shakeFrames_stopped: "shakeFrames n (u, c, rs, False) = (u, c, rs, False)"
  by (induction n) simp_all

lemma shakeFrames_add: "shakeFrames (m + n) st = shakeFrames n (shakeFrames m st)"
  by (induction m st rule: shakeFrames.induct) simp_all

lemma shakeFrames_running:
  "\<forall>j<k. shakeTime u + 16 * real j < duration u \<Longrightarrow>
     \<exists>c' rs'. shakeFrames k (u, c, rs, True) = (u\<lparr>shakeTime := shakeTime u + 16 * real k\<rparr>, c', rs', True)"
proof (induction k arbitrary: u c rs)
  case 0
  then show ?case by simp
next
  case (Suc k)
  have first: "shakeTime u < duration u" using Suc.prems [rule_format, of 0] by simp
  let ?u1 = "u\<lparr>shakeTime := shakeTime u + 16\<rparr>"
  obtain c1 rs1 where step1: "shake u c rs = (?u1, c1, rs1, True)"
    using first by (simp add: shake_def Let_def)
  have "\<forall>j<k. shakeTime ?u1 + 16 * real j < duration ?u1"
  proof (intro allI impI)
    fix j assume "j < k"
    then show "shakeTime ?u1 + 16 * real j < duration ?u1"
      using Suc.prems [rule_format, of "Suc j"] by (simp add: algebra_simps)
  qed
  from Suc.IH [OF this, of c1 rs1] show ?case
    by (auto simp: step1 algebra_simps)
qed

lemma shake_run_complete:
  fixes d :: real
  defines "N \<equiv> nat \<lceil>d / 16\<rceil>"
  shows "k \<le> N \<Longrightarrow> \<exists>c' rs'. shakeFrames k (newShake c i d, c, rs, True)
            = ((newShake c i d)\<lparr>shakeTime := 16 * real k\<rparr>, c', rs', True)"
    and "\<exists>rs'. shakeFrames (Suc N) (newShake c i d, c, rs, True)
            = ((newShake c i d)\<lparr>shakeTime := 16 * real N\<rparr>, c, rs', False)"
    and "d \<le> 16 * real N"
proof -
  have below: "16 * real j < d" if "j < N" for j
  proof -
    have "int j < \<lceil>d / 16\<rceil>" using that by (simp add: N_def)
    then have "real j < d / 16" by (simp add: less_ceiling_iff)
    then show ?thesis by simp
  qed
  have run: "\<exists>c' rs'. shakeFrames k (newShake c i d, c, rs, True)
            = ((newShake c i d)\<lparr>shakeTime := 16 * real k\<rparr>, c', rs', True)" if "k \<le> N" for k
  proof -
    have "\<forall>j<k. shakeTime (newShake c i d) + 16 * real j < duration (newShake c i d)"
      using below that by (simp add: newShake_def)
    from shakeFrames_running [OF this, of c rs] show ?thesis by (simp add: newShake_def)
  qed
  then show "k \<le> N \<Longrightarrow> \<exists>c' rs'. shakeFrames k (newShake c i d, c, rs, True)
            = ((newShake c i d)\<lparr>shakeTime := 16 * real k\<rparr>, c', rs', True)" .
  show reach: "d \<le> 16 * real N"
  proof -
    have "d / 16 \<le> real_of_int \<lceil>d / 16\<rceil>" by (rule le_of_int_ceiling)
    also have "\<dots> \<le> real N" by (simp add: N_def)
    finally show ?thesis by simp
  qed
  obtain c' rs' where at: "shakeFrames N (newShake c i d, c, rs, True)
            = ((newShake c i d)\<lparr>shakeTime := 16 * real N\<rparr>, c', rs', True)"
    using run [OF order_refl] by blast
  have "shakeFrames (Suc N) (newShake c i d, c, rs, True)
        = shakeFrames 1 (shakeFrames N (newShake c i d, c, rs, True))"
    by (simp only: Suc_eq_plus1 shakeFrames_add)
  also have "\<dots> = shakeFrames 1 ((newShake c i d)\<lparr>shakeTime := 16 * real N\<rparr>, c', rs', True)"
    by (simp only: at)
  also have "\<dots> = ((newShake c i d)\<lparr>shakeTime := 16 * real N\<rparr>, c, rs', False)"
    using reach by (simp add: shake_def newShake_def)
  finally show "\<exists>rs'. shakeFrames (Suc N) (newShake c i d, c, rs, True)
            = ((newShake c i d)\<lparr>shakeTime := 16 * real N\<rparr>, c, rs', False)" by blast
qed

text \<open>
  C4. For every intensity \<open>i\<close> and duration \<open>d\<close>: a call of \<open>shake\<close> that finds
  the accumulated shake time at or above the duration sets the scene offset to exactly
  the offset recorded at the start and requests no further frame. Started from the
  container \<open>c\<close>, the shake runs for \<open>nat \<lceil>d / 16\<rceil>\<close> calls with
  \<open>shakeTime = 16 * k\<close> after call \<open>k\<close>; the next call finds \<open>shakeTime \<ge> d\<close>,
  leaves the container equal to \<open>c\<close>, and is the last: whatever frames follow change
  nothing. In the state of the component, that last call of a shake changes the offset
  of the container and nothing else: the queue of the next frame is as it was.
\<close>

theorem shake_restores_offset:
  "(\<not> shakeTime u < duration u \<longrightarrow>
      shake u c' rs' = (u, c'\<lparr>con_x := originalX u, con_y := originalY u\<rparr>, rs', False)) \<and>
   (\<forall>k \<le> nat \<lceil>d / 16\<rceil>.
      shakeTime (fst (shakeFrames k (newShake c i d, c, rs, True))) = 16 * real k \<and>
      snd (snd (snd (shakeFrames k (newShake c i d, c, rs, True))))) \<and>
   d \<le> shakeTime (fst (shakeFrames (Suc (nat \<lceil>d / 16\<rceil>)) (newShake c i d, c, rs, True))) \<and>
   fst (snd (shakeFrames (Suc (nat \<lceil>d / 16\<rceil>)) (newShake c i d, c, rs, True))) = c \<and>
   \<not> snd (snd (snd (shakeFrames (Suc (nat \<lceil>d / 16\<rceil>)) (newShake c i d, c, rs, True)))) \<and>
   (\<forall>m. shakeFrames (Suc (nat \<lceil>d / 16\<rceil>) + m) (newShake c i d, c, rs, True)
          = shakeFrames (Suc (nat \<lceil>d / 16\<rceil>)) (newShake c i d, c, rs, True)) \<and>
   (j < length (shakes w) \<and> containerRef w = Some c' \<and>
      \<not> shakeTime (shakes w ! j) < duration (shakes w ! j) \<longrightarrow>
      shakeAt j w = w\<lparr>containerRef := Some (c'\<lparr>con_x := originalX (shakes w ! j),
                                                con_y := originalY (shakes w ! j)\<rparr>)\<rparr>)"
proof -
  obtain rs1 where fin: "shakeFrames (Suc (nat \<lceil>d / 16\<rceil>)) (newShake c i d, c, rs, True)
      = ((newShake c i d)\<lparr>shakeTime := 16 * real (nat \<lceil>d / 16\<rceil>)\<rparr>, c, rs1, False)"
    using shake_run_complete(2) [where c = c and i = i and d = d and rs = rs] by blast
  have 1: "\<not> shakeTime u < duration u \<longrightarrow>
      shake u c' rs' = (u, c'\<lparr>con_x := originalX u, con_y := originalY u\<rparr>, rs', False)"
    by (simp add: shake_def)
  have 2: "\<forall>k \<le> nat \<lceil>d / 16\<rceil>.
      shakeTime (fst (shakeFrames k (newShake c i d, c, rs, True))) = 16 * real k \<and>
      snd (snd (snd (shakeFrames k (newShake c i d, c, rs, True))))"
  proof (intro allI impI)
    fix k assume "k \<le> nat \<lceil>d / 16\<rceil>"
    from shake_run_complete(1) [OF this, where c = c and i = i and rs = rs]
    show "shakeTime (fst (shakeFrames k (newShake c i d, c, rs, True))) = 16 * real k \<and>
      snd (snd (snd (shakeFrames k (newShake c i d, c, rs, True))))" by auto
  qed
  have 3: "d \<le> shakeTime (fst (shakeFrames (Suc (nat \<lceil>d / 16\<rceil>)) (newShake c i d, c, rs, True)))"
    using shake_run_complete(3) [where d = d] by (simp add: fin del: shakeFrames.simps)
  have 4: "\<forall>m. shakeFrames (Suc (nat \<lceil>d / 16\<rceil>) + m) (newShake c i d, c, rs, True)
          = shakeFrames (Suc (nat \<lceil>d / 16\<rceil>)) (newShake c i d, c, rs, True)"
    by (simp only: shakeFrames_add fin shakeFrames_stopped) simp
  have 5: "j < length (shakes w) \<and> containerRef w = Some c' \<and>
      \<not> shakeTime (shakes w ! j) < duration (shakes w ! j) \<longrightarrow>
      shakeAt j w = w\<lparr>containerRef := Some (c'\<lparr>con_x := originalX (shakes w ! j),
                                                con_y := originalY (shakes w ! j)\<rparr>)\<rparr>"
    by (simp add: shakeAt_def shake_def Let_def)
  show ?thesis
    using 1 2 3 4 5 by (simp add: fin del: shakeFrames.simps)
qed

text \<open>
  The theorem for the shake of the program (intensity 20, duration 800): fifty calls
  jitter, the fifty-first restores the offset (3, 4); so does the call in the state, from
  whatever offset the container has by then.
\<close>

theorem shake_restores_offset_witness:
  "\<not> shakeTime \<lparr>originalX = 3, originalY = 4, shakeTime = 800, intensity = 20, duration = 800\<rparr>
       < duration \<lparr>originalX = 3, originalY = 4, shakeTime = 800, intensity = 20, duration = 800\<rparr> \<and>
   shake \<lparr>originalX = 3, originalY = 4, shakeTime = 800, intensity = 20, duration = 800\<rparr>
     \<lparr>con_x = 7, con_y = 1\<rparr> (sconst (1/4))
     = (\<lparr>originalX = 3, originalY = 4, shakeTime = 800, intensity = 20, duration = 800\<rparr>,
        \<lparr>con_x = 3, con_y = 4\<rparr>, sconst (1/4), False) \<and>
   (50::nat) \<le> nat \<lceil>(800::real) / 16\<rceil> \<and>
   shakeTime (fst (shakeFrames 50 (newShake \<lparr>con_x = 3, con_y = 4\<rparr> 20 800,
       \<lparr>con_x = 3, con_y = 4\<rparr>, sconst (1/4), True))) = 800 \<and>
   fst (snd (shakeFrames 51 (newShake \<lparr>con_x = 3, con_y = 4\<rparr> 20 800,
       \<lparr>con_x = 3, con_y = 4\<rparr>, sconst (1/4), True))) = \<lparr>con_x = 3, con_y = 4\<rparr> \<and>
   containerRef (shakeAt 0 ((mount (sconst (1/4)) (sconst 0))
       \<lparr>containerRef := Some \<lparr>con_x = 7, con_y = 1\<rparr>,
        shakes := [\<lparr>originalX = 3, originalY = 4, shakeTime = 800, intensity = 20,
                    duration = 800\<rparr>]\<rparr>))
     = Some \<lparr>con_x = 3, con_y = 4\<rparr> \<and>
   rafQueue (shakeAt 0 ((mount (sconst (1/4)) (sconst 0))
       \<lparr>containerRef := Some \<lparr>con_x = 7, con_y = 1\<rparr>,
        shakes := [\<lparr>originalX = 3, originalY = 4, shakeTime = 800, intensity = 20,
                    duration = 800\<rparr>]\<rparr>)) = []"
proof -
  have N: "nat \<lceil>(800::real) / 16\<rceil> = 50" by simp
  have S: "Suc 50 = 51" by simp
  from shake_restores_offset [where
      u = "\<lparr>originalX = 3, originalY = 4, shakeTime = 800, intensity = 20, duration = 800\<rparr>"
      and c' = "\<lparr>con_x = 7, con_y = 1\<rparr>" and rs' = "sconst (1/4)" and d = 800
      and c = "\<lparr>con_x = 3, con_y = 4\<rparr>" and i = 20 and rs = "sconst (1/4)" and j = 0
      and w = "(mount (sconst (1/4)) (sconst 0))
       \<lparr>containerRef := Some \<lparr>con_x = 7, con_y = 1\<rparr>,
        shakes := [\<lparr>originalX = 3, originalY = 4, shakeTime = 800, intensity = 20,
                    duration = 800\<rparr>]\<rparr>"]
  show ?thesis
    unfolding N S by (simp add: mount_def del: shakeFrames.simps)
qed

section \<open>The handlers in the state\<close>

lemma run_Cons: "run (e # es) w = run es (step e w)"
  by (simp add: run_def)

lemma run_Nil: "run [] w = w"
  by (simp add: run_def)

lemma run_append: "run (es @ es') w = run es' (run es w)"
  by (simp add: run_def)

lemma started_eq:
  "started iw ih rs ts =
     \<lparr>gameState = Idle, gameStateRef = Idle,
      appRef = Some \<lparr>scr_width = iw, scr_height = ih\<rparr>,
      rocketRef = Some (initialRocket \<lparr>scr_width = iw, scr_height = ih\<rparr>),
      explosionRef = Some initialExplosion,
      containerRef = Some \<lparr>con_x = 0, con_y = 0\<rparr>, particlesRef = None, batches = [],
      rings = [], shakes = [], rafQueue = [], timeouts = [], randoms = sdrop 400 rs,
      clock = ts, console = []\<rparr>"
  by (simp add: started_def run_def mount_def appReady_def assetsLoaded_def render_def
        createStarsBackground_def)

lemma launched_eq:
  "run [ClickLaunch] (started iw ih rs ts) =
     \<lparr>gameState = Shooting, gameStateRef = Shooting,
      appRef = Some \<lparr>scr_width = iw, scr_height = ih\<rparr>,
      rocketRef = Some (initialRocket \<lparr>scr_width = iw, scr_height = ih\<rparr>),
      explosionRef = Some initialExplosion,
      containerRef = Some \<lparr>con_x = 0, con_y = 0\<rparr>, particlesRef = None, batches = [],
      rings = [], shakes = [], rafQueue = [], timeouts = [], randoms = sdrop 400 rs,
      clock = ts, console = []\<rparr>"
  by (simp add: run_Cons run_Nil started_eq handleShoot_def setGameState_def render_def)

lemma createExplosionRings_eq:
  "createExplosionRings x0 y0 w =
     w\<lparr>timeouts := timeouts w @
        [(0, SpawnRing x0 y0), (100, SpawnRing x0 y0), (200, SpawnRing x0 y0),
         (300, SpawnRing x0 y0), (400, SpawnRing x0 y0)]\<rparr>"
proof -
  have "[0..<5] = [0, 1, 2, 3, 4]" by (simp add: upt_rec)
  then show ?thesis
    by (simp add: createExplosionRings_def setTimeout_def)
qed

lemma createScreenShake_eq:
  "0 < d \<Longrightarrow> createScreenShake i d w =
     (case containerRef w of
        None \<Rightarrow> w
      | Some c \<Rightarrow>
          w\<lparr>shakes := shakes w @ [(newShake c i d)\<lparr>shakeTime := 16\<rparr>],
            containerRef := Some \<lparr>con_x = con_x c + (shd (randoms w) - 0.5) * i,
                                    con_y = con_y c + (shd (stl (randoms w)) - 0.5) * i\<rparr>,
            randoms := stl (stl (randoms w)),
            rafQueue := rafQueue w @ [RafShake (length (shakes w))]\<rparr>)"
  by (simp add: createScreenShake_def shakeAt_def shake_def newShake_def
        requestAnimationFrame_def Let_def split: option.splits)

lemma spawnRing_eq:
  "spawnRing x0 y0 w =
     w\<lparr>rings := rings w @ [fst (expandRing (newRing x0 y0))],
       rafQueue := rafQueue w @ [RafRing (length (rings w))]\<rparr>"
  by (simp add: spawnRing_def expandRingAt_def expandRing_def newRing_def
        requestAnimationFrame_def Let_def)

lemma handleExplode_invalid:
  "gs = Idle \<or> gs = Exploding \<Longrightarrow> handleExplode gs w = w"
  by (auto simp: handleExplode_def)

lemma handleExplode_missing:
  "rocketRef w = None \<or> explosionRef w = None \<or> containerRef w = None \<Longrightarrow> handleExplode gs w = w"
  by (auto simp: handleExplode_def split: option.splits)

lemma handleExplode_valid:
  assumes "gs = Shooting \<or> gs = Flying"
    and "rocketRef w = Some rocket" and "explosionRef w = Some explosion"
    and "containerRef w = Some c"
  shows "handleExplode gs w =
     w\<lparr>randoms := stl (stl (snd (spawnParticles (spr_x rocket) (spr_y rocket) (randoms w)))),
       batches := batches w @
         [map stepParticle (fst (spawnParticles (spr_x rocket) (spr_y rocket) (randoms w)))],
       particlesRef := Some (length (batches w)),
       timeouts := timeouts w @
         [(0, SpawnRing (spr_x rocket) (spr_y rocket)), (100, SpawnRing (spr_x rocket) (spr_y rocket)),
          (200, SpawnRing (spr_x rocket) (spr_y rocket)), (300, SpawnRing (spr_x rocket) (spr_y rocket)),
          (400, SpawnRing (spr_x rocket) (spr_y rocket))],
       shakes := shakes w @ [(newShake c 20 800)\<lparr>shakeTime := 16\<rparr>],
       containerRef := Some
         \<lparr>con_x = con_x c
            + (shd (snd (spawnParticles (spr_x rocket) (spr_y rocket) (randoms w))) - 0.5) * 20,
          con_y = con_y c
            + (shd (stl (snd (spawnParticles (spr_x rocket) (spr_y rocket) (randoms w)))) - 0.5) * 20\<rparr>,
       rafQueue := rafQueue w @ [RafParticles (length (batches w)), RafShake (length (shakes w))],
       rocketRef := Some (rocket\<lparr>spr_visible := False\<rparr>),
       explosionRef := Some (explosion\<lparr>ani_x := spr_x rocket, ani_y := spr_y rocket,
         ani_visible := True, ani_scale := 4, ani_playing := True, ani_onComplete := Some 2000\<rparr>),
       gameState := Exploding,
       console := console w @ [''BOOM!'']\<rparr>"
  using assms(1)
  by (auto simp: handleExplode_def assms(2-4) Let_def setGameState_def
        createExplosionParticles_eq createExplosionRings_eq createScreenShake_eq)

lemma handleExplode_eq:
  "handleExplode gs w =
     (if gs \<noteq> Shooting \<and> gs \<noteq> Flying then w
      else
        (case (rocketRef w, explosionRef w, containerRef w) of
           (Some rocket, Some explosion, Some c) \<Rightarrow>
     w\<lparr>randoms := stl (stl (snd (spawnParticles (spr_x rocket) (spr_y rocket) (randoms w)))),
       batches := batches w @
         [map stepParticle (fst (spawnParticles (spr_x rocket) (spr_y rocket) (randoms w)))],
       particlesRef := Some (length (batches w)),
       timeouts := timeouts w @
         [(0, SpawnRing (spr_x rocket) (spr_y rocket)), (100, SpawnRing (spr_x rocket) (spr_y rocket)),
          (200, SpawnRing (spr_x rocket) (spr_y rocket)), (300, SpawnRing (spr_x rocket) (spr_y rocket)),
          (400, SpawnRing (spr_x rocket) (spr_y rocket))],
       shakes := shakes w @ [(newShake c 20 800)\<lparr>shakeTime := 16\<rparr>],
       containerRef := Some
         \<lparr>con_x = con_x c
            + (shd (snd (spawnParticles (spr_x rocket) (spr_y rocket) (randoms w))) - 0.5) * 20,
          con_y = con_y c
            + (shd (stl (snd (spawnParticles (spr_x rocket) (spr_y rocket) (randoms w)))) - 0.5) * 20\<rparr>,
       rafQueue := rafQueue w @ [RafParticles (length (batches w)), RafShake (length (shakes w))],
       rocketRef := Some (rocket\<lparr>spr_visible := False\<rparr>),
       explosionRef := Some (explosion\<lparr>ani_x := spr_x rocket, ani_y := spr_y rocket,
         ani_visible := True, ani_scale := 4, ani_playing := True, ani_onComplete := Some 2000\<rparr>),
       gameState := Exploding,
       console := console w @ [''BOOM!'']\<rparr>
         | _ \<Rightarrow> w))"
proof (cases "gs \<noteq> Shooting \<and> gs \<noteq> Flying")
  case True
  then show ?thesis by (simp add: handleExplode_def)
next
  case valid: False
  show ?thesis
  proof (cases "rocketRef w = None \<or> explosionRef w = None \<or> containerRef w = None")
    case True
    then show ?thesis using handleExplode_missing [OF True, of gs] by (auto split: option.splits)
  next
    case False
    then obtain rocket explosion c where refs: "rocketRef w = Some rocket"
      "explosionRef w = Some explosion" "containerRef w = Some c" by auto
    from valid have v: "gs = Shooting \<or> gs = Flying" by simp
    show ?thesis
      by (subst handleExplode_valid [OF v refs]) (use valid in \<open>auto simp: refs\<close>)
  qed
qed

lemma resetRocket_eq:
  "resetRocket w =
     (case (appRef w, rocketRef w, explosionRef w) of
        (Some app, Some rocket, Some explosion) \<Rightarrow>
          w\<lparr>rocketRef := Some (rocket\<lparr>spr_x := real_of_int (scr_width app) / 2,
                 spr_y := real_of_int (scr_height app) - 20, spr_visible := True,
                 spr_rotation := 0\<rparr>),
            explosionRef := Some (explosion\<lparr>ani_visible := False\<rparr>),
            gameState := Idle\<rparr>
      | _ \<Rightarrow> w)"
  by (simp add: resetRocket_def setGameState_def Let_def split: option.splits)

lemma resetRocket_keeps:
  "timeouts (resetRocket w) = timeouts w"
  "rafQueue (resetRocket w) = rafQueue w"
  "batches (resetRocket w) = batches w"
  "rings (resetRocket w) = rings w"
  "shakes (resetRocket w) = shakes w"
  "containerRef (resetRocket w) = containerRef w"
  "appRef (resetRocket w) = appRef w"
  by (simp_all add: resetRocket_eq split: option.splits)

lemma explosionComplete_eq:
  "explosionComplete w =
     (case explosionRef w of
        None \<Rightarrow> w
      | Some e \<Rightarrow>
          (if ani_playing e then
             (case ani_onComplete e of
                None \<Rightarrow> w\<lparr>explosionRef := Some (e\<lparr>ani_playing := False\<rparr>)\<rparr>
              | Some delay \<Rightarrow>
                  w\<lparr>explosionRef := Some (e\<lparr>ani_playing := False\<rparr>),
                    timeouts := timeouts w @ [(delay, ResetRocket)]\<rparr>)
           else w))"
  by (simp add: explosionComplete_def setTimeout_def Let_def split: option.splits)

lemma handleExplode_ring_timers:
  assumes "gs = Shooting \<or> gs = Flying"
    and "rocketRef w = Some rocket" and "explosionRef w = Some explosion"
    and "containerRef w = Some c" and "j < 5"
  shows "rings (fireTimeout (length (timeouts w) + j) (handleExplode gs w))
     = rings w @ [fst (expandRing (newRing (spr_x rocket) (spr_y rocket)))]"
proof -
  from assms(5) have "j = 0 \<or> j = 1 \<or> j = 2 \<or> j = 3 \<or> j = 4" by arith
  then show ?thesis
    using assms(1)
    by (auto simp: handleExplode_eq assms(2-4) fireTimeout_def spawnRing_eq Let_def nth_append)
qed

subsection \<open>Every event keeps the scene complete\<close>

lemma shape_render: "sceneShape (render w) = sceneShape w"
  by (simp add: sceneShape_def render_def)

lemma shape_handleShoot: "sceneShape (handleShoot w) = sceneShape w"
  by (simp add: sceneShape_def handleShoot_def setGameState_def)

lemma shape_handleExplode: "sceneShape (handleExplode gs w) = sceneShape w"
  by (simp add: sceneShape_def handleExplode_eq split: option.splits)

lemma shape_resetRocket: "sceneShape (resetRocket w) = sceneShape w"
  by (simp add: sceneShape_def resetRocket_eq split: option.splits)

lemma shape_updateAnimation: "sceneShape (updateAnimation w) = sceneShape w"
  by (simp add: sceneShape_def updateAnimation_def shootingBranch_def flyingBranch_def
        handleExplode_invalid setGameState_def Let_def split: option.splits)

lemma shape_runRaf: "sceneShape (runRaf cb w) = sceneShape w"
  by (cases cb)
     (simp_all add: sceneShape_def runRaf_def animateParticlesAt_def shakeAt_def expandRingAt_def
        requestAnimationFrame_def Let_def split: option.splits prod.splits)

lemma shape_fold_runRaf: "sceneShape (fold runRaf q w) = sceneShape w"
  by (induction q arbitrary: w) (simp_all add: shape_runRaf)

lemma shape_animationFrame: "sceneShape (animationFrame w) = sceneShape w"
  by (simp add: animationFrame_def shape_fold_runRaf) (simp add: sceneShape_def)

lemma shape_explosionComplete: "sceneShape (explosionComplete w) = sceneShape w"
  by (simp add: sceneShape_def explosionComplete_eq split: option.splits)

lemma shape_fireTimeout: "sceneShape (fireTimeout k w) = sceneShape w"
proof -
  have a: "sceneShape (spawnRing x0 y0 v) = sceneShape v" for x0 y0 v
    by (simp add: sceneShape_def spawnRing_eq)
  have b: "sceneShape (v\<lparr>timeouts := t\<rparr>) = sceneShape v" for v t
    by (simp add: sceneShape_def)
  show ?thesis
    by (simp add: fireTimeout_def Let_def a b shape_resetRocket split: timer.splits)
qed

lemma shape_handleResize: "sceneShape (handleResize iw ih w) = sceneShape w"
  by (simp add: sceneShape_def handleResize_def)

lemma sceneComplete_step: "sceneComplete w \<Longrightarrow> sceneComplete (step e w)"
proof (cases e)
  case (AppReady iw ih)
  assume "sceneComplete w"
  then show ?thesis
    by (auto simp: AppReady sceneComplete_def sceneShape_def render_def appReady_def)
next
  case AssetsLoaded
  assume "sceneComplete w"
  then show ?thesis
    by (auto simp: AssetsLoaded sceneComplete_def sceneShape_def render_def assetsLoaded_def
          createStarsBackground_def split: option.splits)
qed (simp_all add: sceneComplete_def shape_render shape_handleShoot shape_handleExplode
       shape_resetRocket shape_updateAnimation shape_animationFrame shape_explosionComplete
       shape_fireTimeout shape_handleResize)

lemma sceneComplete_run: "sceneComplete w \<Longrightarrow> sceneComplete (run es w)"
  by (induction es arbitrary: w) (simp_all add: run_Nil run_Cons sceneComplete_step del: step.simps)

lemma sceneComplete_reachable:
  "rocketRef (run es (mount rs ts)) \<noteq> None \<Longrightarrow>
     appRef (run es (mount rs ts)) \<noteq> None \<and> explosionRef (run es (mount rs ts)) \<noteq> None \<and>
     containerRef (run es (mount rs ts)) \<noteq> None"
proof -
  have "sceneComplete (mount rs ts)" by (simp add: sceneComplete_def sceneShape_def mount_def)
  from sceneComplete_run [OF this, of es] show "rocketRef (run es (mount rs ts)) \<noteq> None \<Longrightarrow>
     appRef (run es (mount rs ts)) \<noteq> None \<and> explosionRef (run es (mount rs ts)) \<noteq> None \<and>
     containerRef (run es (mount rs ts)) \<noteq> None"
    by (auto simp: sceneComplete_def sceneShape_def)
qed

subsection \<open>The claims about the handlers\<close>

text \<open>
  C9. For every phase other than \<open>Idle\<close>, \<open>handleShoot\<close> leaves the phase and the rest
  of the state as they are: in the component with effects, in \<open>App.tsx\<close> and in the
  variant with a preparing phase.
\<close>

theorem launch_ignored_outside_idle:
  "(gameState w \<noteq> Idle \<longrightarrow> handleShoot w = w) \<and>
   (gameState_App a \<noteq> Idle \<longrightarrow> handleShoot_App a = a) \<and>
   (gameState_Prep v \<noteq> P_Idle \<longrightarrow> handleShoot_Prep v = v)"
  by (simp add: handleShoot_def handleShoot_App_def handleShoot_Prep_def)

text \<open>
  The theorem at a rocket that has been launched, a flying one and a preparing one.
\<close>

theorem launch_ignored_outside_idle_witness:
  "gameState (run [ClickLaunch] (started 800 600 (sconst (1/2)) (sconst 0))) \<noteq> Idle \<and>
   handleShoot (run [ClickLaunch] (started 800 600 (sconst (1/2)) (sconst 0)))
     = run [ClickLaunch] (started 800 600 (sconst (1/2)) (sconst 0)) \<and>
   handleShoot_App
       \<lparr>gameState_App = Flying, rocketPosition_App = (400, 200),
        appRef_App = Some \<lparr>scr_width = 800, scr_height = 600\<rparr>,
        rocketRef_App = Some (initialRocket_App \<lparr>scr_width = 800, scr_height = 600\<rparr>),
        explosionRef_App = Some initialExplosion\<rparr>
     = \<lparr>gameState_App = Flying, rocketPosition_App = (400, 200),
        appRef_App = Some \<lparr>scr_width = 800, scr_height = 600\<rparr>,
        rocketRef_App = Some (initialRocket_App \<lparr>scr_width = 800, scr_height = 600\<rparr>),
        explosionRef_App = Some initialExplosion\<rparr> \<and>
   handleShoot_Prep
       \<lparr>gameState_Prep = P_Preparing, rocketPosition_Prep = (400, 480),
        appRef_Prep = Some \<lparr>scr_width = 800, scr_height = 600\<rparr>,
        rocketRef_Prep = Some (initialRocket \<lparr>scr_width = 800, scr_height = 600\<rparr>),
        explosionRef_Prep = Some initialExplosion\<rparr>
     = \<lparr>gameState_Prep = P_Preparing, rocketPosition_Prep = (400, 480),
        appRef_Prep = Some \<lparr>scr_width = 800, scr_height = 600\<rparr>,
        rocketRef_Prep = Some (initialRocket \<lparr>scr_width = 800, scr_height = 600\<rparr>),
        explosionRef_Prep = Some initialExplosion\<rparr>"
proof -
  let ?w = "run [ClickLaunch] (started 800 600 (sconst (1/2)) (sconst 0))"
  let ?a = "\<lparr>gameState_App = Flying, rocketPosition_App = (400, 200),
        appRef_App = Some \<lparr>scr_width = 800, scr_height = 600\<rparr>,
        rocketRef_App = Some (initialRocket_App \<lparr>scr_width = 800, scr_height = 600\<rparr>),
        explosionRef_App = Some initialExplosion\<rparr>"
  let ?v = "\<lparr>gameState_Prep = P_Preparing, rocketPosition_Prep = (400, 480),
        appRef_Prep = Some \<lparr>scr_width = 800, scr_height = 600\<rparr>,
        rocketRef_Prep = Some (initialRocket \<lparr>scr_width = 800, scr_height = 600\<rparr>),
        explosionRef_Prep = Some initialExplosion\<rparr>"
  have p: "gameState ?w \<noteq> Idle" "gameState_App ?a \<noteq> Idle" "gameState_Prep ?v \<noteq> P_Idle"
    by (simp_all add: launched_eq)
  from launch_ignored_outside_idle [where w = ?w and a = ?a and v = ?v] p
  show ?thesis by blast
qed

text \<open>
  C8 (as amended). \<open>handleExplode\<close> sets the phase to \<open>Exploding\<close> when the phase is
  \<open>Shooting\<close> or \<open>Flying\<close> (or \<open>Preparing\<close>, in the variant that has it) and the
  rocket, the explosion and, in the component with effects, the container exist. It
  returns the state unchanged when the phase is \<open>Idle\<close> or \<open>Exploding\<close>, and also
  when one of these objects does not exist yet.
\<close>

theorem explode_transition:
  "((gameState w = Shooting \<or> gameState w = Flying) \<and> rocketRef w \<noteq> None
      \<and> explosionRef w \<noteq> None \<and> containerRef w \<noteq> None \<longrightarrow>
      gameState (handleExplode (gameState w) w) = Exploding) \<and>
   (gameState w = Idle \<or> gameState w = Exploding \<longrightarrow> handleExplode (gameState w) w = w) \<and>
   (rocketRef w = None \<or> explosionRef w = None \<or> containerRef w = None \<longrightarrow>
      handleExplode (gameState w) w = w) \<and>
   ((gameState_Prep v = P_Preparing \<or> gameState_Prep v = P_Shooting \<or> gameState_Prep v = P_Flying)
      \<and> rocketRef_Prep v \<noteq> None \<and> explosionRef_Prep v \<noteq> None \<longrightarrow>
      gameState_Prep (handleExplode_Prep v) = P_Exploding) \<and>
   (gameState_Prep v = P_Idle \<or> gameState_Prep v = P_Exploding \<longrightarrow> handleExplode_Prep v = v) \<and>
   (rocketRef_Prep v = None \<or> explosionRef_Prep v = None \<longrightarrow> handleExplode_Prep v = v)"
proof (intro conjI impI)
  assume "(gameState w = Shooting \<or> gameState w = Flying) \<and> rocketRef w \<noteq> None
      \<and> explosionRef w \<noteq> None \<and> containerRef w \<noteq> None"
  then show "gameState (handleExplode (gameState w) w) = Exploding"
    by (auto simp: handleExplode_eq)
next
  assume "gameState w = Idle \<or> gameState w = Exploding"
  then show "handleExplode (gameState w) w = w" by (rule handleExplode_invalid)
next
  assume "rocketRef w = None \<or> explosionRef w = None \<or> containerRef w = None"
  then show "handleExplode (gameState w) w = w" by (rule handleExplode_missing)
next
  assume "(gameState_Prep v = P_Preparing \<or> gameState_Prep v = P_Shooting \<or> gameState_Prep v = P_Flying)
      \<and> rocketRef_Prep v \<noteq> None \<and> explosionRef_Prep v \<noteq> None"
  then show "gameState_Prep (handleExplode_Prep v) = P_Exploding"
    by (auto simp: handleExplode_Prep_def)
next
  assume "gameState_Prep v = P_Idle \<or> gameState_Prep v = P_Exploding"
  then show "handleExplode_Prep v = v" by (auto simp: handleExplode_Prep_def)
next
  assume "rocketRef_Prep v = None \<or> explosionRef_Prep v = None"
  then show "handleExplode_Prep v = v" by (auto simp: handleExplode_Prep_def split: option.splits)
qed

text \<open>
  The theorem at a launched rocket, at an idle one, at a launch before the scene
  exists, and at a preparing and an exploding rocket of the variant with that phase.
\<close>

theorem explode_transition_witness:
  "gameState (run [ClickLaunch] (started 800 600 (sconst (1/2)) (sconst 0))) = Shooting \<and>
   gameState (handleExplode Shooting (run [ClickLaunch] (started 800 600 (sconst (1/2)) (sconst 0))))
     = Exploding \<and>
   gameState (started 800 600 (sconst (1/2)) (sconst 0)) = Idle \<and>
   handleExplode Idle (started 800 600 (sconst (1/2)) (sconst 0))
     = started 800 600 (sconst (1/2)) (sconst 0) \<and>
   rocketRef (run [ClickLaunch] (mount (sconst (1/2)) (sconst 0))) = None \<and>
   handleExplode Shooting (run [ClickLaunch] (mount (sconst (1/2)) (sconst 0)))
     = run [ClickLaunch] (mount (sconst (1/2)) (sconst 0)) \<and>
   gameState_Prep (handleExplode_Prep
       \<lparr>gameState_Prep = P_Preparing, rocketPosition_Prep = (400, 480),
        appRef_Prep = Some \<lparr>scr_width = 800, scr_height = 600\<rparr>,
        rocketRef_Prep = Some (initialRocket \<lparr>scr_width = 800, scr_height = 600\<rparr>),
        explosionRef_Prep = Some initialExplosion\<rparr>) = P_Exploding \<and>
   handleExplode_Prep
       \<lparr>gameState_Prep = P_Exploding, rocketPosition_Prep = (400, 480),
        appRef_Prep = Some \<lparr>scr_width = 800, scr_height = 600\<rparr>,
        rocketRef_Prep = Some (initialRocket \<lparr>scr_width = 800, scr_height = 600\<rparr>),
        explosionRef_Prep = Some initialExplosion\<rparr>
     = \<lparr>gameState_Prep = P_Exploding, rocketPosition_Prep = (400, 480),
        appRef_Prep = Some \<lparr>scr_width = 800, scr_height = 600\<rparr>,
        rocketRef_Prep = Some (initialRocket \<lparr>scr_width = 800, scr_height = 600\<rparr>),
        explosionRef_Prep = Some initialExplosion\<rparr>"
proof -
  let ?w = "run [ClickLaunch] (started 800 600 (sconst (1/2)) (sconst 0))"
  let ?s = "started 800 600 (sconst (1/2)) (sconst 0)"
  let ?m = "run [ClickLaunch] (mount (sconst (1/2)) (sconst 0))"
  let ?v = "\<lparr>gameState_Prep = P_Preparing, rocketPosition_Prep = (400, 480),
        appRef_Prep = Some \<lparr>scr_width = 800, scr_height = 600\<rparr>,
        rocketRef_Prep = Some (initialRocket \<lparr>scr_width = 800, scr_height = 600\<rparr>),
        explosionRef_Prep = Some initialExplosion\<rparr>"
  let ?x = "\<lparr>gameState_Prep = P_Exploding, rocketPosition_Prep = (400, 480),
        appRef_Prep = Some \<lparr>scr_width = 800, scr_height = 600\<rparr>,
        rocketRef_Prep = Some (initialRocket \<lparr>scr_width = 800, scr_height = 600\<rparr>),
        explosionRef_Prep = Some initialExplosion\<rparr>"
  have a: "gameState ?w = Shooting" "rocketRef ?w \<noteq> None" "explosionRef ?w \<noteq> None"
    "containerRef ?w \<noteq> None"
    by (simp_all add: launched_eq)
  have b: "gameState ?s = Idle" by (simp add: started_eq)
  have c: "gameState_Prep ?v = P_Preparing" "rocketRef_Prep ?v \<noteq> None" "explosionRef_Prep ?v \<noteq> None"
    by simp_all
  have d: "gameState ?m = Shooting" "rocketRef ?m = None"
    by (simp_all add: run_Cons run_Nil mount_def handleShoot_def setGameState_def render_def)
  have e: "gameState_Prep ?x = P_Exploding" by simp
  from explode_transition [where w = ?w and v = ?v] a c
  have 1: "gameState (handleExplode Shooting ?w) = Exploding"
    and 2: "gameState_Prep (handleExplode_Prep ?v) = P_Exploding" by auto
  from explode_transition [where w = ?s and v = ?x] b e
  have 3: "handleExplode Idle ?s = ?s" and 4: "handleExplode_Prep ?x = ?x" by auto
  from explode_transition [where w = ?m and v = ?v] d
  have 5: "handleExplode Shooting ?m = ?m" by auto
  show ?thesis using a(1) b d(2) 1 2 3 4 5 by blast
qed

text \<open>
  C8 as stated fails: Launch and then Explode, both clicked before \<open>initPixi\<close> has
  created the scene, leave the phase \<open>Shooting\<close>.
\<close>

theorem explode_before_scene_exists:
  "gameState (run [ClickLaunch] (mount (sconst (1/2)) (sconst 0))) = Shooting \<and>
   rocketRef (run [ClickLaunch] (mount (sconst (1/2)) (sconst 0))) = None \<and>
   gameState (run [ClickLaunch, ClickExplode] (mount (sconst (1/2)) (sconst 0))) = Shooting \<and>
   run [ClickLaunch, ClickExplode] (mount (sconst (1/2)) (sconst 0))
     = run [ClickLaunch] (mount (sconst (1/2)) (sconst 0))"
  by (simp add: run_Cons run_Nil mount_def handleShoot_def setGameState_def render_def
        handleExplode_def)

text \<open>
  C10. A call of \<open>handleExplode\<close> in phase \<open>Shooting\<close> or \<open>Flying\<close>, with the
  rocket, the explosion and the container in place, changes of the rocket only
  \<open>visible\<close> (to false) and sets the phase to \<open>Exploding\<close>. The explosion is shown at
  the rocket's position. Fifty particles are created at the rocket's position, particle
  \<open>i\<close> from the random numbers \<open>4 i .. 4 i + 3\<close>; the call ends with their first
  pass, so the batch it leaves holds these fifty particles after one step: each is at the
  rocket's position plus its own velocity. The five ring timeouts carry the rocket's
  position, and the ring each of them creates when it fires is at that position. Whatever
  the phase and the state, the call leaves the rocket's x, y, rotation and scale as they
  were. The same holds in \<open>App.tsx\<close>, which has no effect units. In every state the
  component can reach, the explosion and the container exist whenever the rocket does.
\<close>

theorem explode_keeps_pose:
  "(rocketRef w = Some rocket \<and> explosionRef w = Some explosion \<and> containerRef w = Some c \<and>
      (gameState w = Shooting \<or> gameState w = Flying) \<longrightarrow>
      rocketRef (handleExplode (gameState w) w) = Some (rocket\<lparr>spr_visible := False\<rparr>) \<and>
      gameState (handleExplode (gameState w) w) = Exploding \<and>
      explosionRef (handleExplode (gameState w) w)
        = Some (explosion\<lparr>ani_x := spr_x rocket, ani_y := spr_y rocket, ani_visible := True,
                  ani_scale := 4, ani_playing := True, ani_onComplete := Some 2000\<rparr>) \<and>
      batches (handleExplode (gameState w) w)
        = batches w @
          [fst (animateParticles (fst (spawnParticles (spr_x rocket) (spr_y rocket) (randoms w))))] \<and>
      batches (handleExplode (gameState w) w)
        = batches w @
          [map stepParticle (fst (spawnParticles (spr_x rocket) (spr_y rocket) (randoms w)))] \<and>
      length (fst (spawnParticles (spr_x rocket) (spr_y rocket) (randoms w))) = 50 \<and>
      (\<forall>p\<in>set (fst (spawnParticles (spr_x rocket) (spr_y rocket) (randoms w))).
         p_x p = spr_x rocket \<and> p_y p = spr_y rocket) \<and>
      length (last (batches (handleExplode (gameState w) w))) = 50 \<and>
      (\<forall>q\<in>set (last (batches (handleExplode (gameState w) w))).
         p_x q = spr_x rocket + p_vx q \<and> p_y q = spr_y rocket + p_vy q - p_gravity q \<and>
         p_life q = 0.98) \<and>
      (i < 50 \<longrightarrow>
         fst (spawnParticles (spr_x rocket) (spr_y rocket) (randoms w)) ! i
           = fst (newParticle (spr_x rocket) (spr_y rocket) (sdrop (4 * i) (randoms w))) \<and>
         last (batches (handleExplode (gameState w) w)) ! i
           = stepParticle
               (fst (newParticle (spr_x rocket) (spr_y rocket) (sdrop (4 * i) (randoms w))))) \<and>
      timeouts (handleExplode (gameState w) w)
        = timeouts w @ map (\<lambda>i. (i * 100, SpawnRing (spr_x rocket) (spr_y rocket))) [0..<5] \<and>
      (j < 5 \<longrightarrow>
         rings (fireTimeout (length (timeouts w) + j) (handleExplode (gameState w) w))
           = rings w @ [fst (expandRing (newRing (spr_x rocket) (spr_y rocket)))]) \<and>
      appRef (handleExplode (gameState w) w) = appRef w \<and>
      gameStateRef (handleExplode (gameState w) w) = gameStateRef w) \<and>
   p_x (fst (newParticle px py qs)) = px \<and>
   p_y (fst (newParticle px py qs)) = py \<and>
   p_vx (fst (newParticle px py qs)) = (shd (sdrop 2 qs) - 0.5) * 20 \<and>
   p_vy (fst (newParticle px py qs)) = (shd (sdrop 3 qs) - 0.5) * 20 \<and>
   r_x (fst (expandRing (newRing px py))) = px \<and>
   r_y (fst (expandRing (newRing px py))) = py \<and>
   map_option spr_x (rocketRef (handleExplode gs w)) = map_option spr_x (rocketRef w) \<and>
   map_option spr_y (rocketRef (handleExplode gs w)) = map_option spr_y (rocketRef w) \<and>
   map_option spr_rotation (rocketRef (handleExplode gs w)) = map_option spr_rotation (rocketRef w) \<and>
   map_option spr_scale (rocketRef (handleExplode gs w)) = map_option spr_scale (rocketRef w) \<and>
   (rocketRef_App a = Some rocket' \<and> explosionRef_App a = Some explosion' \<and>
      (gameState_App a = Shooting \<or> gameState_App a = Flying) \<longrightarrow>
      handleExplode_App a
        = a\<lparr>rocketRef_App := Some (rocket'\<lparr>spr_visible := False\<rparr>),
            explosionRef_App := Some (explosion'\<lparr>ani_x := spr_x rocket', ani_y := spr_y rocket',
              ani_visible := True, ani_scale := 3, ani_playing := True,
              ani_onComplete := Some 1500\<rparr>),
            gameState_App := Exploding\<rparr>) \<and>
   map_option spr_x (rocketRef_App (handleExplode_App a)) = map_option spr_x (rocketRef_App a) \<and>
   map_option spr_y (rocketRef_App (handleExplode_App a)) = map_option spr_y (rocketRef_App a) \<and>
   map_option spr_rotation (rocketRef_App (handleExplode_App a))
     = map_option spr_rotation (rocketRef_App a) \<and>
   map_option spr_scale (rocketRef_App (handleExplode_App a)) = map_option spr_scale (rocketRef_App a) \<and>
   (rocketRef (run es (mount rs ts)) \<noteq> None \<longrightarrow>
      explosionRef (run es (mount rs ts)) \<noteq> None \<and>
      containerRef (run es (mount rs ts)) \<noteq> None)"
proof -
  let ?B = "fst (spawnParticles (spr_x rocket) (spr_y rocket) (randoms w))"
  have upt5: "[0..<5] = [0, 1, 2, 3, 4]" by (simp add: upt_rec)
  have 1: "rocketRef w = Some rocket \<and> explosionRef w = Some explosion \<and> containerRef w = Some c \<and>
      (gameState w = Shooting \<or> gameState w = Flying) \<longrightarrow>
      rocketRef (handleExplode (gameState w) w) = Some (rocket\<lparr>spr_visible := False\<rparr>) \<and>
      gameState (handleExplode (gameState w) w) = Exploding \<and>
      explosionRef (handleExplode (gameState w) w)
        = Some (explosion\<lparr>ani_x := spr_x rocket, ani_y := spr_y rocket, ani_visible := True,
                  ani_scale := 4, ani_playing := True, ani_onComplete := Some 2000\<rparr>) \<and>
      batches (handleExplode (gameState w) w) = batches w @ [fst (animateParticles ?B)] \<and>
      batches (handleExplode (gameState w) w) = batches w @ [map stepParticle ?B] \<and>
      (\<forall>p\<in>set ?B. p_x p = spr_x rocket \<and> p_y p = spr_y rocket) \<and>
      timeouts (handleExplode (gameState w) w)
        = timeouts w @ map (\<lambda>i. (i * 100, SpawnRing (spr_x rocket) (spr_y rocket))) [0..<5] \<and>
      appRef (handleExplode (gameState w) w) = appRef w \<and>
      gameStateRef (handleExplode (gameState w) w) = gameStateRef w"
    using spawnParticles_spec(2) [of _ "spr_x rocket" "spr_y rocket" "randoms w"]
    by (auto simp: handleExplode_eq upt5 spawned_pass)
  have len: "length ?B = 50" by (rule spawnParticles_spec(1))
  have b1: "rocketRef w = Some rocket \<and> explosionRef w = Some explosion \<and> containerRef w = Some c \<and>
      (gameState w = Shooting \<or> gameState w = Flying) \<longrightarrow>
      length (last (batches (handleExplode (gameState w) w))) = 50 \<and>
      (\<forall>q\<in>set (last (batches (handleExplode (gameState w) w))).
         p_x q = spr_x rocket + p_vx q \<and> p_y q = spr_y rocket + p_vy q - p_gravity q \<and>
         p_life q = 0.98) \<and>
      (i < 50 \<longrightarrow>
         ?B ! i = fst (newParticle (spr_x rocket) (spr_y rocket) (sdrop (4 * i) (randoms w))) \<and>
         last (batches (handleExplode (gameState w) w)) ! i
           = stepParticle
               (fst (newParticle (spr_x rocket) (spr_y rocket) (sdrop (4 * i) (randoms w)))))"
  proof (intro impI)
    assume a: "rocketRef w = Some rocket \<and> explosionRef w = Some explosion \<and>
      containerRef w = Some c \<and> (gameState w = Shooting \<or> gameState w = Flying)"
    then have "batches (handleExplode (gameState w) w) = batches w @ [map stepParticle ?B]"
      by (auto simp: handleExplode_eq)
    then have l: "last (batches (handleExplode (gameState w) w)) = map stepParticle ?B"
      by simp
    have l1: "length (last (batches (handleExplode (gameState w) w))) = 50"
      by (simp add: l len)
    have l2: "\<forall>q\<in>set (last (batches (handleExplode (gameState w) w))).
         p_x q = spr_x rocket + p_vx q \<and> p_y q = spr_y rocket + p_vy q - p_gravity q \<and>
         p_life q = 0.98"
    proof
      fix q assume "q \<in> set (last (batches (handleExplode (gameState w) w)))"
      then have "q \<in> set (map stepParticle ?B)" by (simp only: l)
      then show "p_x q = spr_x rocket + p_vx q \<and> p_y q = spr_y rocket + p_vy q - p_gravity q \<and>
         p_life q = 0.98"
        by (rule new_batch_positions)
    qed
    have l3: "i < 50 \<longrightarrow>
         ?B ! i = fst (newParticle (spr_x rocket) (spr_y rocket) (sdrop (4 * i) (randoms w))) \<and>
         last (batches (handleExplode (gameState w) w)) ! i
           = stepParticle
               (fst (newParticle (spr_x rocket) (spr_y rocket) (sdrop (4 * i) (randoms w))))"
    proof
      assume i: "i < 50"
      then have n: "?B ! i = fst (newParticle (spr_x rocket) (spr_y rocket) (sdrop (4 * i) (randoms w)))"
        by (rule spawnParticles_nth)
      have "last (batches (handleExplode (gameState w) w)) ! i = stepParticle (?B ! i)"
        using i len by (simp add: l)
      with n show "?B ! i = fst (newParticle (spr_x rocket) (spr_y rocket) (sdrop (4 * i) (randoms w))) \<and>
         last (batches (handleExplode (gameState w) w)) ! i
           = stepParticle
               (fst (newParticle (spr_x rocket) (spr_y rocket) (sdrop (4 * i) (randoms w))))"
        by simp
    qed
    from l1 l2 l3
    show "length (last (batches (handleExplode (gameState w) w))) = 50 \<and>
      (\<forall>q\<in>set (last (batches (handleExplode (gameState w) w))).
         p_x q = spr_x rocket + p_vx q \<and> p_y q = spr_y rocket + p_vy q - p_gravity q \<and>
         p_life q = 0.98) \<and>
      (i < 50 \<longrightarrow>
         ?B ! i = fst (newParticle (spr_x rocket) (spr_y rocket) (sdrop (4 * i) (randoms w))) \<and>
         last (batches (handleExplode (gameState w) w)) ! i
           = stepParticle
               (fst (newParticle (spr_x rocket) (spr_y rocket) (sdrop (4 * i) (randoms w)))))"
      by (intro conjI)
  qed
  have c1: "rocketRef w = Some rocket \<and> explosionRef w = Some explosion \<and> containerRef w = Some c \<and>
      (gameState w = Shooting \<or> gameState w = Flying) \<longrightarrow>
      (j < 5 \<longrightarrow>
         rings (fireTimeout (length (timeouts w) + j) (handleExplode (gameState w) w))
           = rings w @ [fst (expandRing (newRing (spr_x rocket) (spr_y rocket)))])"
    using handleExplode_ring_timers [of "gameState w" w rocket explosion c j] by blast
  have d1: "p_x (fst (newParticle px py qs)) = px \<and>
   p_y (fst (newParticle px py qs)) = py \<and>
   p_vx (fst (newParticle px py qs)) = (shd (sdrop 2 qs) - 0.5) * 20 \<and>
   p_vy (fst (newParticle px py qs)) = (shd (sdrop 3 qs) - 0.5) * 20 \<and>
   r_x (fst (expandRing (newRing px py))) = px \<and>
   r_y (fst (expandRing (newRing px py))) = py"
    by (simp add: newParticle_fields newParticle_velocity expandRing_fields newRing_def)
  have 2: "map_option spr_x (rocketRef (handleExplode gs w)) = map_option spr_x (rocketRef w) \<and>
   map_option spr_y (rocketRef (handleExplode gs w)) = map_option spr_y (rocketRef w) \<and>
   map_option spr_rotation (rocketRef (handleExplode gs w)) = map_option spr_rotation (rocketRef w) \<and>
   map_option spr_scale (rocketRef (handleExplode gs w)) = map_option spr_scale (rocketRef w)"
    by (simp add: handleExplode_eq split: option.splits)
  have 3: "rocketRef_App a = Some rocket' \<and> explosionRef_App a = Some explosion' \<and>
      (gameState_App a = Shooting \<or> gameState_App a = Flying) \<longrightarrow>
      handleExplode_App a
        = a\<lparr>rocketRef_App := Some (rocket'\<lparr>spr_visible := False\<rparr>),
            explosionRef_App := Some (explosion'\<lparr>ani_x := spr_x rocket', ani_y := spr_y rocket',
              ani_visible := True, ani_scale := 3, ani_playing := True,
              ani_onComplete := Some 1500\<rparr>),
            gameState_App := Exploding\<rparr>"
    by (auto simp: handleExplode_App_def)
  have 4: "map_option spr_x (rocketRef_App (handleExplode_App a)) = map_option spr_x (rocketRef_App a) \<and>
   map_option spr_y (rocketRef_App (handleExplode_App a)) = map_option spr_y (rocketRef_App a) \<and>
   map_option spr_rotation (rocketRef_App (handleExplode_App a))
     = map_option spr_rotation (rocketRef_App a) \<and>
   map_option spr_scale (rocketRef_App (handleExplode_App a)) = map_option spr_scale (rocketRef_App a)"
    by (simp add: handleExplode_App_def split: option.splits)
  have 5: "rocketRef (run es (mount rs ts)) \<noteq> None \<longrightarrow>
      explosionRef (run es (mount rs ts)) \<noteq> None \<and>
      containerRef (run es (mount rs ts)) \<noteq> None"
    using sceneComplete_reachable [of es rs ts] by blast
  have first: "rocketRef w = Some rocket \<and> explosionRef w = Some explosion \<and> containerRef w = Some c \<and>
      (gameState w = Shooting \<or> gameState w = Flying) \<longrightarrow>
      rocketRef (handleExplode (gameState w) w) = Some (rocket\<lparr>spr_visible := False\<rparr>) \<and>
      gameState (handleExplode (gameState w) w) = Exploding \<and>
      explosionRef (handleExplode (gameState w) w)
        = Some (explosion\<lparr>ani_x := spr_x rocket, ani_y := spr_y rocket, ani_visible := True,
                  ani_scale := 4, ani_playing := True, ani_onComplete := Some 2000\<rparr>) \<and>
      batches (handleExplode (gameState w) w) = batches w @ [fst (animateParticles ?B)] \<and>
      batches (handleExplode (gameState w) w) = batches w @ [map stepParticle ?B] \<and>
      length ?B = 50 \<and>
      (\<forall>p\<in>set ?B. p_x p = spr_x rocket \<and> p_y p = spr_y rocket) \<and>
      length (last (batches (handleExplode (gameState w) w))) = 50 \<and>
      (\<forall>q\<in>set (last (batches (handleExplode (gameState w) w))).
         p_x q = spr_x rocket + p_vx q \<and> p_y q = spr_y rocket + p_vy q - p_gravity q \<and>
         p_life q = 0.98) \<and>
      (i < 50 \<longrightarrow>
         ?B ! i = fst (newParticle (spr_x rocket) (spr_y rocket) (sdrop (4 * i) (randoms w))) \<and>
         last (batches (handleExplode (gameState w) w)) ! i
           = stepParticle
               (fst (newParticle (spr_x rocket) (spr_y rocket) (sdrop (4 * i) (randoms w))))) \<and>
      timeouts (handleExplode (gameState w) w)
        = timeouts w @ map (\<lambda>i. (i * 100, SpawnRing (spr_x rocket) (spr_y rocket))) [0..<5] \<and>
      (j < 5 \<longrightarrow>
         rings (fireTimeout (length (timeouts w) + j) (handleExplode (gameState w) w))
           = rings w @ [fst (expandRing (newRing (spr_x rocket) (spr_y rocket)))]) \<and>
      appRef (handleExplode (gameState w) w) = appRef w \<and>
      gameStateRef (handleExplode (gameState w) w) = gameStateRef w"
  proof (rule impI)
    assume a: "rocketRef w = Some rocket \<and> explosionRef w = Some explosion \<and>
      containerRef w = Some c \<and> (gameState w = Shooting \<or> gameState w = Flying)"
    note x = 1 [rule_format, OF a] and y = b1 [rule_format, OF a] and z = c1 [rule_format, OF a]
    show "rocketRef (handleExplode (gameState w) w) = Some (rocket\<lparr>spr_visible := False\<rparr>) \<and>
      gameState (handleExplode (gameState w) w) = Exploding \<and>
      explosionRef (handleExplode (gameState w) w)
        = Some (explosion\<lparr>ani_x := spr_x rocket, ani_y := spr_y rocket, ani_visible := True,
                  ani_scale := 4, ani_playing := True, ani_onComplete := Some 2000\<rparr>) \<and>
      batches (handleExplode (gameState w) w) = batches w @ [fst (animateParticles ?B)] \<and>
      batches (handleExplode (gameState w) w) = batches w @ [map stepParticle ?B] \<and>
      length ?B = 50 \<and>
      (\<forall>p\<in>set ?B. p_x p = spr_x rocket \<and> p_y p = spr_y rocket) \<and>
      length (last (batches (handleExplode (gameState w) w))) = 50 \<and>
      (\<forall>q\<in>set (last (batches (handleExplode (gameState w) w))).
         p_x q = spr_x rocket + p_vx q \<and> p_y q = spr_y rocket + p_vy q - p_gravity q \<and>
         p_life q = 0.98) \<and>
      (i < 50 \<longrightarrow>
         ?B ! i = fst (newParticle (spr_x rocket) (spr_y rocket) (sdrop (4 * i) (randoms w))) \<and>
         last (batches (handleExplode (gameState w) w)) ! i
           = stepParticle
               (fst (newParticle (spr_x rocket) (spr_y rocket) (sdrop (4 * i) (randoms w))))) \<and>
      timeouts (handleExplode (gameState w) w)
        = timeouts w @ map (\<lambda>i. (i * 100, SpawnRing (spr_x rocket) (spr_y rocket))) [0..<5] \<and>
      (j < 5 \<longrightarrow>
         rings (fireTimeout (length (timeouts w) + j) (handleExplode (gameState w) w))
           = rings w @ [fst (expandRing (newRing (spr_x rocket) (spr_y rocket)))]) \<and>
      appRef (handleExplode (gameState w) w) = appRef w \<and>
      gameStateRef (handleExplode (gameState w) w) = gameStateRef w"
      using x y z len by blast
  qed
  show ?thesis
    using first d1 2 3 4 5 by blast
qed

text \<open>
  The theorem at a launched rocket at (400, 480) when every random number is 0: the first
  particle is created at (400, 480) with velocity (-10, -10) and is at (390, 470) when the
  call returns; the last ring timeout creates its ring at (400, 480). In \<open>App.tsx\<close>,
  at a flying rocket at (400, 200).
\<close>

theorem explode_keeps_pose_witness:
  "rocketRef (run [ClickLaunch] (started 800 600 (sconst 0) (sconst 0)))
     = Some \<lparr>spr_x = 400, spr_y = 480, spr_rotation = 0, spr_visible = True, spr_scale = 1\<rparr> \<and>
   gameState (run [ClickLaunch] (started 800 600 (sconst 0) (sconst 0))) = Shooting \<and>
   rocketRef (handleExplode Shooting (run [ClickLaunch] (started 800 600 (sconst 0) (sconst 0))))
     = Some \<lparr>spr_x = 400, spr_y = 480, spr_rotation = 0, spr_visible = False, spr_scale = 1\<rparr> \<and>
   gameState (handleExplode Shooting (run [ClickLaunch] (started 800 600 (sconst 0) (sconst 0))))
     = Exploding \<and>
   explosionRef (handleExplode Shooting (run [ClickLaunch] (started 800 600 (sconst 0) (sconst 0))))
     = Some \<lparr>ani_x = 400, ani_y = 480, ani_visible = True, ani_scale = 4, ani_playing = True,
         ani_onComplete = Some 2000\<rparr> \<and>
   length (last (batches
     (handleExplode Shooting (run [ClickLaunch] (started 800 600 (sconst 0) (sconst 0)))))) = 50 \<and>
   p_x (fst (spawnParticles 400 480 (sconst 0)) ! 0) = 400 \<and>
   p_y (fst (spawnParticles 400 480 (sconst 0)) ! 0) = 480 \<and>
   p_x (last (batches
     (handleExplode Shooting (run [ClickLaunch] (started 800 600 (sconst 0) (sconst 0))))) ! 0) = 390 \<and>
   p_y (last (batches
     (handleExplode Shooting (run [ClickLaunch] (started 800 600 (sconst 0) (sconst 0))))) ! 0) = 470 \<and>
   rings (fireTimeout 4
     (handleExplode Shooting (run [ClickLaunch] (started 800 600 (sconst 0) (sconst 0)))))
     = [fst (expandRing (newRing 400 480))] \<and>
   handleExplode_App
       \<lparr>gameState_App = Flying, rocketPosition_App = (400, 200),
        appRef_App = Some \<lparr>scr_width = 800, scr_height = 600\<rparr>,
        rocketRef_App = Some \<lparr>spr_x = 400, spr_y = 200, spr_rotation = - pi / 2,
          spr_visible = True, spr_scale = 2\<rparr>,
        explosionRef_App = Some initialExplosion\<rparr>
     = \<lparr>gameState_App = Exploding, rocketPosition_App = (400, 200),
        appRef_App = Some \<lparr>scr_width = 800, scr_height = 600\<rparr>,
        rocketRef_App = Some \<lparr>spr_x = 400, spr_y = 200, spr_rotation = - pi / 2,
          spr_visible = False, spr_scale = 2\<rparr>,
        explosionRef_App = Some \<lparr>ani_x = 400, ani_y = 200, ani_visible = True, ani_scale = 3,
          ani_playing = True, ani_onComplete = Some 1500\<rparr>\<rparr> \<and>
   rocketRef (run [AppReady 800 600, AssetsLoaded] (mount (sconst 0) (sconst 0))) \<noteq> None \<and>
   explosionRef (run [AppReady 800 600, AssetsLoaded] (mount (sconst 0) (sconst 0))) \<noteq> None \<and>
   containerRef (run [AppReady 800 600, AssetsLoaded] (mount (sconst 0) (sconst 0))) \<noteq> None"
proof -
  let ?w = "run [ClickLaunch] (started 800 600 (sconst 0) (sconst 0))"
  let ?r = "\<lparr>spr_x = 400, spr_y = 480, spr_rotation = 0, spr_visible = True, spr_scale = 1\<rparr>"
  let ?r' = "\<lparr>spr_x = 400, spr_y = 200, spr_rotation = - pi / 2, spr_visible = True, spr_scale = 2\<rparr>"
  let ?a = "\<lparr>gameState_App = Flying, rocketPosition_App = (400, 200),
        appRef_App = Some \<lparr>scr_width = 800, scr_height = 600\<rparr>,
        rocketRef_App = Some ?r', explosionRef_App = Some initialExplosion\<rparr>"
  have p: "rocketRef ?w = Some ?r \<and> explosionRef ?w = Some initialExplosion \<and>
      containerRef ?w = Some \<lparr>con_x = 0, con_y = 0\<rparr> \<and>
      (gameState ?w = Shooting \<or> gameState ?w = Flying)"
    by (simp add: launched_eq initialRocket_def)
  have q: "rocketRef_App ?a = Some ?r' \<and> explosionRef_App ?a = Some initialExplosion \<and>
      (gameState_App ?a = Shooting \<or> gameState_App ?a = Flying)"
    by simp
  have g: "gameState ?w = Shooting" by (simp add: launched_eq)
  have rnd: "randoms ?w = sconst 0" by (simp add: launched_eq sdrop_sconst_eq)
  have tm: "timeouts ?w = []" "rings ?w = []" by (simp_all add: launched_eq)
  note t = explode_keeps_pose [where w = ?w and rocket = ?r and explosion = initialExplosion
      and c = "\<lparr>con_x = 0, con_y = 0\<rparr>" and gs = Shooting and a = ?a and rocket' = ?r'
      and explosion' = initialExplosion and es = "[AppReady 800 600, AssetsLoaded]" and rs = "sconst 0"
      and ts = "sconst 0" and i = 0 and j = 4 and px = 400 and py = 480 and qs = "sconst 0"]
  from t p have 1: "rocketRef (handleExplode (gameState ?w) ?w) = Some (?r\<lparr>spr_visible := False\<rparr>)"
    and 2: "gameState (handleExplode (gameState ?w) ?w) = Exploding"
    and 3: "explosionRef (handleExplode (gameState ?w) ?w)
        = Some (initialExplosion\<lparr>ani_x := spr_x ?r, ani_y := spr_y ?r, ani_visible := True,
                  ani_scale := 4, ani_playing := True, ani_onComplete := Some 2000\<rparr>)"
    and 6: "length (last (batches (handleExplode (gameState ?w) ?w))) = 50"
    and 7: "(0::nat) < 50 \<longrightarrow>
         fst (spawnParticles (spr_x ?r) (spr_y ?r) (randoms ?w)) ! 0
           = fst (newParticle (spr_x ?r) (spr_y ?r) (sdrop (4 * 0) (randoms ?w))) \<and>
         last (batches (handleExplode (gameState ?w) ?w)) ! 0
           = stepParticle (fst (newParticle (spr_x ?r) (spr_y ?r) (sdrop (4 * 0) (randoms ?w))))"
    and 8: "(4::nat) < 5 \<longrightarrow>
         rings (fireTimeout (length (timeouts ?w) + 4) (handleExplode (gameState ?w) ?w))
           = rings ?w @ [fst (expandRing (newRing (spr_x ?r) (spr_y ?r)))]"
    by blast+
  from t have 9: "p_x (fst (newParticle 400 480 (sconst 0))) = 400"
      "p_y (fst (newParticle 400 480 (sconst 0))) = 480"
      "p_vx (fst (newParticle 400 480 (sconst 0))) = (shd (sdrop 2 (sconst 0)) - 0.5) * 20"
      "p_vy (fst (newParticle 400 480 (sconst 0))) = (shd (sdrop 3 (sconst 0)) - 0.5) * 20"
    by blast+
  from 7 have 10: "fst (spawnParticles 400 480 (sconst 0)) ! 0 = fst (newParticle 400 480 (sconst 0))"
    and 11: "last (batches (handleExplode Shooting ?w)) ! 0
           = stepParticle (fst (newParticle 400 480 (sconst 0)))"
    by (simp_all add: rnd g)
  have 12: "p_x (last (batches (handleExplode Shooting ?w)) ! 0) = 390"
    "p_y (last (batches (handleExplode Shooting ?w)) ! 0) = 470"
    by (simp_all add: 11 9 stepParticle_fields sdrop_sconst_eq)
  from 8 have 13: "rings (fireTimeout 4 (handleExplode Shooting ?w)) = [fst (expandRing (newRing 400 480))]"
    by (simp add: tm g)
  from t q have 4: "handleExplode_App ?a
        = ?a\<lparr>rocketRef_App := Some (?r'\<lparr>spr_visible := False\<rparr>),
            explosionRef_App := Some (initialExplosion\<lparr>ani_x := spr_x ?r', ani_y := spr_y ?r',
              ani_visible := True, ani_scale := 3, ani_playing := True,
              ani_onComplete := Some 1500\<rparr>),
            gameState_App := Exploding\<rparr>"
    by blast
  have r: "rocketRef (run [AppReady 800 600, AssetsLoaded] (mount (sconst 0) (sconst 0))) \<noteq> None"
    using started_eq [of 800 600 "sconst 0" "sconst 0"] by (simp add: started_def)
  from t r have 5: "explosionRef (run [AppReady 800 600, AssetsLoaded] (mount (sconst 0) (sconst 0))) \<noteq> None
      \<and> containerRef (run [AppReady 800 600, AssetsLoaded] (mount (sconst 0) (sconst 0))) \<noteq> None"
    by blast
  have 14: "length (last (batches (handleExplode Shooting ?w))) = 50"
    using 6 by (simp only: g)
  show ?thesis
    using p g 1 2 3 4 5 r 14 10 9 12 13 by (simp add: initialExplosion_def)
qed

text \<open>
  C1. The claim is that Reset() sets the phase to \<open>Idle\<close> and puts the rocket into
  the pose it had before the first launch. For a window of 800 by 600 the rocket starts
  at y = 480 (\<open>height - 120\<close>) and Reset() puts it at y = 580 (\<open>height - 20\<close>),
  before the first launch as well as during an explosion, whose pending callbacks it
  leaves alone; in \<open>App.tsx\<close> the rocket starts at y = 350 (\<open>height - 250\<close>) and is
  reset to y = 550 (\<open>height - 50\<close>). The phase, x, the rotation and the visibility are
  as claimed.
\<close>

theorem reset_pose_is_not_launch_pose:
  "rocketRef (started 800 600 (sconst (1/2)) (sconst 0))
     = Some \<lparr>spr_x = 400, spr_y = 480, spr_rotation = 0, spr_visible = True, spr_scale = 1\<rparr> \<and>
   rocketRef (run [ClickReset] (started 800 600 (sconst (1/2)) (sconst 0)))
     = Some \<lparr>spr_x = 400, spr_y = 580, spr_rotation = 0, spr_visible = True, spr_scale = 1\<rparr> \<and>
   gameState (run [ClickReset] (started 800 600 (sconst (1/2)) (sconst 0))) = Idle \<and>
   gameState (run [ClickLaunch, ClickExplode] (started 800 600 (sconst (1/2)) (sconst 0)))
     = Exploding \<and>
   rafQueue (run [ClickLaunch, ClickExplode] (started 800 600 (sconst (1/2)) (sconst 0)))
     = [RafParticles 0, RafShake 0] \<and>
   rocketRef (run [ClickLaunch, ClickExplode, ClickReset] (started 800 600 (sconst (1/2)) (sconst 0)))
     = Some \<lparr>spr_x = 400, spr_y = 580, spr_rotation = 0, spr_visible = True, spr_scale = 1\<rparr> \<and>
   gameState (run [ClickLaunch, ClickExplode, ClickReset] (started 800 600 (sconst (1/2)) (sconst 0)))
     = Idle \<and>
   rafQueue (run [ClickLaunch, ClickExplode, ClickReset] (started 800 600 (sconst (1/2)) (sconst 0)))
     = [RafParticles 0, RafShake 0] \<and>
   initialRocket_App \<lparr>scr_width = 800, scr_height = 600\<rparr>
     = \<lparr>spr_x = 400, spr_y = 350, spr_rotation = - pi / 2, spr_visible = True, spr_scale = 2\<rparr> \<and>
   rocketRef_App (resetRocket_App
       \<lparr>gameState_App = Idle, rocketPosition_App = (400, 350),
        appRef_App = Some \<lparr>scr_width = 800, scr_height = 600\<rparr>,
        rocketRef_App = Some (initialRocket_App \<lparr>scr_width = 800, scr_height = 600\<rparr>),
        explosionRef_App = Some initialExplosion\<rparr>)
     = Some \<lparr>spr_x = 400, spr_y = 550, spr_rotation = - pi / 2, spr_visible = True, spr_scale = 2\<rparr>"
  by (simp add: started_eq run_Cons run_Nil resetRocket_eq render_def initialRocket_def
        initialRocket_App_def resetRocket_App_def Let_def handleShoot_def handleExplode_eq
        setGameState_def initialExplosion_def)

section \<open>The ascent\<close>

lemma tick_shooting:
  assumes "appRef w = Some app" and "rocketRef w = Some rocket"
    and "gameStateRef w = Shooting" and "gameState w = Shooting"
  shows "step Tick w =
     w\<lparr>rocketRef := Some (rocket\<lparr>spr_y := spr_y rocket - 8,
            spr_x := spr_x rocket + sin (shd (clock w) * 0.01) * 1,
            spr_rotation := sin (shd (stl (clock w)) * 0.008) * 0.05\<rparr>),
       clock := stl (stl (clock w)),
       gameState := (if spr_y rocket - 8 \<le> real_of_int (scr_height app) / 2 then Flying else Shooting),
       gameStateRef := (if spr_y rocket - 8 \<le> real_of_int (scr_height app) / 2 then Flying else Shooting)\<rparr>"
  using assms
  by (simp add: updateAnimation_def shootingBranch_def setGameState_def render_def Let_def)

lemma ticks_shooting:
  assumes "appRef w = Some app" and "rocketRef w = Some rocket"
    and "gameStateRef w = Shooting" and "gameState w = Shooting"
    and "\<forall>j<k. real_of_int (scr_height app) / 2 < spr_y rocket - 8 * real (Suc j)"
  shows "\<exists>r. rocketRef (run (replicate k Tick) w) = Some r \<and> spr_y r = spr_y rocket - 8 * real k \<and>
           appRef (run (replicate k Tick) w) = Some app \<and>
           gameStateRef (run (replicate k Tick) w) = Shooting \<and>
           gameState (run (replicate k Tick) w) = Shooting"
  using assms
proof (induction k arbitrary: w rocket)
  case 0
  then show ?case by (simp add: run_Nil)
next
  case (Suc k)
  have above: "real_of_int (scr_height app) / 2 < spr_y rocket - 8"
    using Suc.prems(5) [rule_format, of 0] by simp
  let ?r1 = "rocket\<lparr>spr_y := spr_y rocket - 8,
            spr_x := spr_x rocket + sin (shd (clock w) * 0.01) * 1,
            spr_rotation := sin (shd (stl (clock w)) * 0.008) * 0.05\<rparr>"
  let ?w1 = "step Tick w"
  note t = tick_shooting [OF Suc.prems(1-4)]
  have a: "appRef ?w1 = Some app" and b: "rocketRef ?w1 = Some ?r1"
    and c: "gameStateRef ?w1 = Shooting" and d: "gameState ?w1 = Shooting"
    using above by (simp_all add: t Suc.prems(1) del: step.simps)
  have e: "\<forall>j<k. real_of_int (scr_height app) / 2 < spr_y ?r1 - 8 * real (Suc j)"
  proof (intro allI impI)
    fix j assume "j < k"
    then show "real_of_int (scr_height app) / 2 < spr_y ?r1 - 8 * real (Suc j)"
      using Suc.prems(5) [rule_format, of "Suc j"] by (simp add: algebra_simps)
  qed
  from Suc.IH [OF a b c d e] show ?case
    by (simp add: run_Cons algebra_simps)
qed

lemma replicate_Tick_snoc: "run (replicate (Suc m) Tick) w = step Tick (run (replicate m Tick) w)"
proof -
  have "replicate (Suc m) Tick = replicate m Tick @ [Tick]"
    by (simp add: replicate_append_same)
  then show ?thesis
    by (simp only: run_append run_Cons run_Nil)
qed

text \<open>
  C3 (as amended). Let the phase be \<open>Shooting\<close> (the React state and the ref the
  frame loop reads) with the rocket at \<open>y = height - 120\<close>. After exactly
  \<open>max 1 (ceil((y - height/2)/8))\<close> ticks the rocket's y is at or above the middle of
  the viewport (\<open>y \<le> height/2\<close>) and the phase is \<open>Flying\<close>; after every smaller
  number of ticks the phase is \<open>Shooting\<close>. For a viewport higher than 240 this number
  is the predicted \<open>ceil((y - height/2)/8)\<close>.
\<close>

theorem shooting_reaches_flying:
  assumes "appRef w = Some app" and "rocketRef w = Some rocket"
    and "spr_y rocket = real_of_int (scr_height app) - 120"
    and "gameState w = Shooting" and "gameStateRef w = Shooting"
  shows "gameState (run (replicate (max 1 (nat (predictedTicks (spr_y rocket) (scr_height app)))) Tick) w)
           = Flying \<and>
         (\<exists>r. rocketRef (run (replicate (max 1 (nat (predictedTicks (spr_y rocket) (scr_height app)))) Tick) w)
                 = Some r \<and>
               spr_y r = spr_y rocket
                 - 8 * real (max 1 (nat (predictedTicks (spr_y rocket) (scr_height app)))) \<and>
               spr_y r \<le> real_of_int (scr_height app) / 2) \<and>
         (\<forall>k < max 1 (nat (predictedTicks (spr_y rocket) (scr_height app))).
            gameState (run (replicate k Tick) w) = Shooting) \<and>
         (240 < scr_height app \<longrightarrow>
            int (max 1 (nat (predictedTicks (spr_y rocket) (scr_height app))))
              = predictedTicks (spr_y rocket) (scr_height app))"
proof -
  define h where "h = real_of_int (scr_height app)"
  define v where "v = (spr_y rocket - h / 2) / 8"
  define n where "n = max 1 (nat (predictedTicks (spr_y rocket) (scr_height app)))"
  have pt: "predictedTicks (spr_y rocket) (scr_height app) = \<lceil>v\<rceil>"
    by (simp add: predictedTicks_def v_def h_def)
  have n1: "1 \<le> n" by (simp add: n_def)
  then obtain m where m: "n = Suc m" by (cases n) auto
  have vn: "v \<le> real n"
  proof -
    have "v \<le> real_of_int \<lceil>v\<rceil>" by (rule le_of_int_ceiling)
    also have "\<dots> \<le> real n" by (simp add: n_def pt)
    finally show ?thesis .
  qed
  have below: "h / 2 < spr_y rocket - 8 * real (Suc j)" if "j < m" for j
  proof -
    from that m have "Suc j < n" by simp
    then have "n = nat \<lceil>v\<rceil>" by (auto simp: n_def pt max_def split: if_splits)
    with \<open>Suc j < n\<close> have "int (Suc j) < \<lceil>v\<rceil>" by linarith
    then have "real (Suc j) < v" by (simp add: less_ceiling_iff)
    then show ?thesis by (simp add: v_def field_simps)
  qed
  have before: "\<exists>r. rocketRef (run (replicate k Tick) w) = Some r \<and>
           spr_y r = spr_y rocket - 8 * real k \<and>
           appRef (run (replicate k Tick) w) = Some app \<and>
           gameStateRef (run (replicate k Tick) w) = Shooting \<and>
           gameState (run (replicate k Tick) w) = Shooting" if "k \<le> m" for k
  proof (rule ticks_shooting [OF assms(1,2,5,4)])
    show "\<forall>j<k. real_of_int (scr_height app) / 2 < spr_y rocket - 8 * real (Suc j)"
      using below that by (auto simp: h_def)
  qed
  from before [OF order_refl] obtain r where r: "rocketRef (run (replicate m Tick) w) = Some r"
    "spr_y r = spr_y rocket - 8 * real m" "appRef (run (replicate m Tick) w) = Some app"
    "gameStateRef (run (replicate m Tick) w) = Shooting"
    "gameState (run (replicate m Tick) w) = Shooting" by blast
  have cross: "spr_y r - 8 \<le> real_of_int (scr_height app) / 2"
    using vn by (simp add: r(2) m v_def h_def field_simps)
  note last = tick_shooting [OF r(3) r(1) r(4) r(5)]
  have fin: "gameState (run (replicate n Tick) w) = Flying"
    unfolding m replicate_Tick_snoc last using cross by simp
  have pos: "\<exists>r'. rocketRef (run (replicate n Tick) w) = Some r' \<and>
      spr_y r' = spr_y rocket - 8 * real n \<and> spr_y r' \<le> real_of_int (scr_height app) / 2"
    unfolding m replicate_Tick_snoc last using cross by (simp add: r(2) algebra_simps)
  have pre: "\<forall>k<n. gameState (run (replicate k Tick) w) = Shooting"
  proof (intro allI impI)
    fix k assume "k < n"
    then have "k \<le> m" using m by simp
    from before [OF this] show "gameState (run (replicate k Tick) w) = Shooting" by blast
  qed
  have cnt: "240 < scr_height app \<longrightarrow> int n = predictedTicks (spr_y rocket) (scr_height app)"
  proof
    assume "240 < scr_height app"
    then have "0 < v" by (simp add: v_def h_def assms(3))
    then have "0 < \<lceil>v\<rceil>" by (simp only: zero_less_ceiling)
    then show "int n = predictedTicks (spr_y rocket) (scr_height app)"
      unfolding n_def pt by arith
  qed
  show ?thesis
    using fin pos pre cnt unfolding n_def by blast
qed

text \<open>
  The theorem for a window of 800 by 600: 23 ticks.
\<close>

theorem shooting_reaches_flying_witness:
  "appRef (run [ClickLaunch] (started 800 600 (sconst 0) (sconst 0)))
     = Some \<lparr>scr_width = 800, scr_height = 600\<rparr> \<and>
   map_option spr_y (rocketRef (run [ClickLaunch] (started 800 600 (sconst 0) (sconst 0))))
     = Some (600 - 120) \<and>
   gameState (run [ClickLaunch] (started 800 600 (sconst 0) (sconst 0))) = Shooting \<and>
   gameStateRef (run [ClickLaunch] (started 800 600 (sconst 0) (sconst 0))) = Shooting \<and>
   predictedTicks 480 600 = 23 \<and>
   gameState (run (replicate 23 Tick) (run [ClickLaunch] (started 800 600 (sconst 0) (sconst 0))))
     = Flying \<and>
   gameState (run (replicate 22 Tick) (run [ClickLaunch] (started 800 600 (sconst 0) (sconst 0))))
     = Shooting"
proof -
  let ?w = "run [ClickLaunch] (started 800 600 (sconst 0) (sconst 0))"
  let ?app = "\<lparr>scr_width = 800, scr_height = 600\<rparr>"
  have a: "appRef ?w = Some ?app" by (simp add: launched_eq)
  have b: "rocketRef ?w = Some (initialRocket ?app)" by (simp add: launched_eq)
  have c: "spr_y (initialRocket ?app) = real_of_int (scr_height ?app) - 120"
    by (simp add: initialRocket_def)
  have d: "gameState ?w = Shooting" and e: "gameStateRef ?w = Shooting"
    by (simp_all add: launched_eq)
  have p: "predictedTicks 480 600 = 23" by (simp add: predictedTicks_def)
  then have n: "max 1 (nat (predictedTicks (spr_y (initialRocket ?app)) (scr_height ?app))) = 23"
    by (simp add: initialRocket_def)
  from shooting_reaches_flying [OF a b c d e] show ?thesis
    unfolding n using a b d e p by (simp add: initialRocket_def)
qed

text \<open>
  C3 as stated fails for a viewport of height 240: the rocket starts at the middle,
  the predicted number of ticks is 0, and after 0 ticks the phase is \<open>Shooting\<close>.
\<close>

theorem no_tick_no_flying_at_height_240:
  "map_option spr_y (rocketRef (run [ClickLaunch] (started 800 240 (sconst 0) (sconst 0))))
     = Some (240 - 120) \<and>
   gameState (run [ClickLaunch] (started 800 240 (sconst 0) (sconst 0))) = Shooting \<and>
   gameStateRef (run [ClickLaunch] (started 800 240 (sconst 0) (sconst 0))) = Shooting \<and>
   predictedTicks (240 - 120) 240 = 0 \<and>
   gameState (run (replicate (nat (predictedTicks (240 - 120) 240)) Tick)
                (run [ClickLaunch] (started 800 240 (sconst 0) (sconst 0)))) = Shooting"
  by (simp add: launched_eq initialRocket_def predictedTicks_def run_Nil)

section \<open>Timeouts\<close>

text \<open>
  C7. \<open>createExplosionRings\<close> registers exactly five timeouts, with delays 0, 100,
  200, 300 and 400 ms, each to spawn a ring at the given position; a detonation
  registers them for the rocket's position and creates no ring itself. When one fires, a
  ring with scale 1 and opacity 1 is added at that position and \<open>expandRing\<close> runs
  once. Each call of \<open>expandRing\<close> adds 0.3 to both scales and takes 0.03 from the
  opacity; it takes the ring off the scene and requests no further frame exactly when
  the opacity it has just set is \<open>\<le> 0\<close>. A new ring is on the scene after 33 calls
  and leaves with the 34th. In the state of the component, a call for ring \<open>j\<close>
  replaces the ring by the result and adds its callback to the queue of the next frame
  exactly when \<open>expandRing\<close> requested it.
\<close>

theorem explosion_rings:
  "createExplosionRings cx cy w =
     w\<lparr>timeouts := timeouts w @
        [(0, SpawnRing cx cy), (100, SpawnRing cx cy), (200, SpawnRing cx cy),
         (300, SpawnRing cx cy), (400, SpawnRing cx cy)]\<rparr> \<and>
   ((gs = Shooting \<or> gs = Flying) \<and> rocketRef w = Some rocket \<and> explosionRef w \<noteq> None
      \<and> containerRef w \<noteq> None \<longrightarrow>
    timeouts (handleExplode gs w) = timeouts w @
        map (\<lambda>i. (i * 100, SpawnRing (spr_x rocket) (spr_y rocket))) [0..<5] \<and>
    rings (handleExplode gs w) = rings w) \<and>
   (k < length (timeouts w) \<and> snd (timeouts w ! k) = SpawnRing cx cy \<longrightarrow>
    rings (fireTimeout k w) = rings w @ [fst (expandRing (newRing cx cy))] \<and>
    timeouts (fireTimeout k w) = spliceOne k (timeouts w)) \<and>
   r_x (newRing cx cy) = cx \<and> r_y (newRing cx cy) = cy \<and>
   r_alpha (newRing cx cy) = 1 \<and> r_parent (newRing cx cy) \<and>
   r_scale_x (fst (expandRing r)) = r_scale_x r + 0.3 \<and>
   r_scale_y (fst (expandRing r)) = r_scale_y r + 0.3 \<and>
   r_alpha (fst (expandRing r)) = r_alpha r - 0.03 \<and>
   r_x (fst (expandRing r)) = r_x r \<and> r_y (fst (expandRing r)) = r_y r \<and>
   (r_parent (fst (expandRing r)) \<longleftrightarrow> r_parent r \<and> 0 < r_alpha (fst (expandRing r))) \<and>
   (snd (expandRing r) \<longleftrightarrow> 0 < r_alpha (fst (expandRing r))) \<and>
   r_parent (fst (ringFrames 33 (newRing cx cy, True))) \<and>
   snd (ringFrames 33 (newRing cx cy, True)) \<and>
   \<not> r_parent (fst (ringFrames 34 (newRing cx cy, True))) \<and>
   \<not> snd (ringFrames 34 (newRing cx cy, True)) \<and>
   (j < length (rings w) \<longrightarrow>
      rings (expandRingAt j w) = (rings w)[j := fst (expandRing (rings w ! j))] \<and>
      rafQueue (expandRingAt j w)
        = rafQueue w @ (if snd (expandRing (rings w ! j)) then [RafRing j] else []))"
proof -
  have upt5: "[0..<5] = [0, 1, 2, 3, 4]" by (simp add: upt_rec)
  have a: "(gs = Shooting \<or> gs = Flying) \<and> rocketRef w = Some rocket \<and> explosionRef w \<noteq> None
      \<and> containerRef w \<noteq> None \<longrightarrow>
    timeouts (handleExplode gs w) = timeouts w @
        map (\<lambda>i. (i * 100, SpawnRing (spr_x rocket) (spr_y rocket))) [0..<5] \<and>
    rings (handleExplode gs w) = rings w"
    by (auto simp: handleExplode_eq upt5)
  have b: "k < length (timeouts w) \<and> snd (timeouts w ! k) = SpawnRing cx cy \<longrightarrow>
    rings (fireTimeout k w) = rings w @ [fst (expandRing (newRing cx cy))] \<and>
    timeouts (fireTimeout k w) = spliceOne k (timeouts w)"
    by (simp add: fireTimeout_def spawnRing_eq Let_def)
  have c: "r_parent (fst (ringFrames 33 (newRing cx cy, True))) \<and>
   snd (ringFrames 33 (newRing cx cy, True)) \<and>
   \<not> r_parent (fst (ringFrames 34 (newRing cx cy, True))) \<and>
   \<not> snd (ringFrames 34 (newRing cx cy, True))"
    by (simp add: new_ring_lifetime)
  have d: "r_x (newRing cx cy) = cx \<and> r_y (newRing cx cy) = cy \<and>
   r_alpha (newRing cx cy) = 1 \<and> r_parent (newRing cx cy)"
    by (simp add: newRing_def)
  have e: "j < length (rings w) \<longrightarrow>
      rings (expandRingAt j w) = (rings w)[j := fst (expandRing (rings w ! j))] \<and>
      rafQueue (expandRingAt j w)
        = rafQueue w @ (if snd (expandRing (rings w ! j)) then [RafRing j] else [])"
    by (cases "expandRing (rings w ! j)")
       (simp add: expandRingAt_def requestAnimationFrame_def Let_def)
  show ?thesis
    using a b c d e
    by (simp add: createExplosionRings_eq expandRing_fields)
qed

text \<open>
  The theorem at the detonation of a launched rocket at (400, 480), and at the first
  of its ring timeouts.
\<close>

theorem explosion_rings_witness:
  "rocketRef (run [ClickLaunch] (started 800 600 (sconst (1/2)) (sconst 0)))
     = Some (initialRocket \<lparr>scr_width = 800, scr_height = 600\<rparr>) \<and>
   explosionRef (run [ClickLaunch] (started 800 600 (sconst (1/2)) (sconst 0))) \<noteq> None \<and>
   containerRef (run [ClickLaunch] (started 800 600 (sconst (1/2)) (sconst 0))) \<noteq> None \<and>
   timeouts (handleExplode Shooting (run [ClickLaunch] (started 800 600 (sconst (1/2)) (sconst 0))))
     = [(0, SpawnRing 400 480), (100, SpawnRing 400 480), (200, SpawnRing 400 480),
        (300, SpawnRing 400 480), (400, SpawnRing 400 480)] \<and>
   rings (fireTimeout 0
      (handleExplode Shooting (run [ClickLaunch] (started 800 600 (sconst (1/2)) (sconst 0)))))
     = [\<lparr>r_x = 400, r_y = 480, r_alpha = 0.97, r_scale_x = 1.3, r_scale_y = 1.3, r_parent = True\<rparr>]"
proof -
  let ?w = "run [ClickLaunch] (started 800 600 (sconst (1/2)) (sconst 0))"
  let ?r = "initialRocket \<lparr>scr_width = 800, scr_height = 600\<rparr>"
  have upt5: "[0..<5] = [0, 1, 2, 3, 4]" by (simp add: upt_rec)
  have refs: "rocketRef ?w = Some ?r" "explosionRef ?w \<noteq> None" "containerRef ?w \<noteq> None"
    "timeouts ?w = []" "rings ?w = []"
    by (simp_all add: launched_eq)
  have pos: "spr_x ?r = 400" "spr_y ?r = 480" by (simp_all add: initialRocket_def)
  from explosion_rings [where gs = Shooting and w = ?w and rocket = ?r and cx = 0 and cy = 0
      and k = 0 and j = 0 and r = "newRing 0 0"]
  have t: "timeouts (handleExplode Shooting ?w)
     = [(0, SpawnRing 400 480), (100, SpawnRing 400 480), (200, SpawnRing 400 480),
        (300, SpawnRing 400 480), (400, SpawnRing 400 480)]"
    and r: "rings (handleExplode Shooting ?w) = []"
    using refs by (simp_all add: pos upt5)
  from explosion_rings [where w = "handleExplode Shooting ?w" and k = 0 and cx = 400 and cy = 480
      and gs = Idle and rocket = ?r and j = 0 and r = "newRing 0 0"]
  have "rings (fireTimeout 0 (handleExplode Shooting ?w)) = [fst (expandRing (newRing 400 480))]"
    by (simp add: t r)
  then show ?thesis
    using refs(1-3) t by (simp add: expandRing_def newRing_def)
qed

text \<open>
  C5 (as amended). Nothing cancels the delayed reset. \<open>resetRocket\<close> (and so a click
  on Reset, and a following click on Launch) leaves the pending timeouts as they are;
  the completion of the explosion adds the reset timeout with the delay \<open>onComplete\<close>
  was given; and when a pending reset timeout fires it runs \<open>resetRocket\<close> on the
  state of that moment, which, the scene being there, sets the phase to \<open>Idle\<close> and
  shows the rocket.
\<close>

theorem pending_reset_survives_reset:
  "timeouts (resetRocket w) = timeouts w \<and>
   timeouts (step ClickReset w) = timeouts w \<and>
   timeouts (step ClickLaunch w) = timeouts w \<and>
   (explosionRef w = Some e \<and> ani_playing e \<and> ani_onComplete e = Some delay \<longrightarrow>
      timeouts (explosionComplete w) = timeouts w @ [(delay, ResetRocket)]) \<and>
   (k < length (timeouts w) \<and> snd (timeouts w ! k) = ResetRocket \<longrightarrow>
      fireTimeout k w = resetRocket (w\<lparr>timeouts := spliceOne k (timeouts w)\<rparr>)) \<and>
   (k < length (timeouts w) \<and> snd (timeouts w ! k) = ResetRocket \<and>
      appRef w \<noteq> None \<and> rocketRef w \<noteq> None \<and> explosionRef w \<noteq> None \<longrightarrow>
      gameState (fireTimeout k w) = Idle \<and>
      map_option spr_visible (rocketRef (fireTimeout k w)) = Some True)"
proof (intro conjI impI)
  show "timeouts (resetRocket w) = timeouts w" by (rule resetRocket_keeps)
  show "timeouts (step ClickReset w) = timeouts w" by (simp add: render_def resetRocket_keeps)
  show "timeouts (step ClickLaunch w) = timeouts w"
    by (simp add: render_def handleShoot_def setGameState_def)
next
  assume "explosionRef w = Some e \<and> ani_playing e \<and> ani_onComplete e = Some delay"
  then show "timeouts (explosionComplete w) = timeouts w @ [(delay, ResetRocket)]"
    by (simp add: explosionComplete_eq)
next
  assume "k < length (timeouts w) \<and> snd (timeouts w ! k) = ResetRocket"
  then show "fireTimeout k w = resetRocket (w\<lparr>timeouts := spliceOne k (timeouts w)\<rparr>)"
    by (simp add: fireTimeout_def Let_def)
next
  assume a: "k < length (timeouts w) \<and> snd (timeouts w ! k) = ResetRocket \<and>
      appRef w \<noteq> None \<and> rocketRef w \<noteq> None \<and> explosionRef w \<noteq> None"
  then have f: "fireTimeout k w = resetRocket (w\<lparr>timeouts := spliceOne k (timeouts w)\<rparr>)"
    by (simp add: fireTimeout_def Let_def)
  show "gameState (fireTimeout k w) = Idle"
    using a unfolding f by (auto simp: resetRocket_eq)
  show "map_option spr_visible (rocketRef (fireTimeout k w)) = Some True"
    using a unfolding f by (auto simp: resetRocket_eq)
qed

lemma stale_trace_eq:
  "run [ClickLaunch, ClickExplode, ExplosionComplete, ClickReset, ClickLaunch, Tick, Tick]
       (started 800 600 (sconst (1/2)) (sconst 0)) =
     \<lparr>gameState = Shooting, gameStateRef = Shooting,
      appRef = Some \<lparr>scr_width = 800, scr_height = 600\<rparr>,
      rocketRef = Some \<lparr>spr_x = 400, spr_y = 564, spr_rotation = 0, spr_visible = True, spr_scale = 1\<rparr>,
      explosionRef = Some \<lparr>ani_x = 400, ani_y = 480, ani_visible = False, ani_scale = 4,
        ani_playing = False, ani_onComplete = Some 2000\<rparr>,
      containerRef = Some \<lparr>con_x = 0, con_y = 0\<rparr>,
      particlesRef = Some 0,
      batches = [map stepParticle (fst (spawnParticles 400 480 (sconst (1/2))))],
      rings = [],
      shakes = [\<lparr>originalX = 0, originalY = 0, shakeTime = 16, intensity = 20, duration = 800\<rparr>],
      rafQueue = [RafParticles 0, RafShake 0],
      timeouts = [(0, SpawnRing 400 480), (100, SpawnRing 400 480), (200, SpawnRing 400 480),
        (300, SpawnRing 400 480), (400, SpawnRing 400 480), (2000, ResetRocket)],
      randoms = sconst (1/2),
      clock = sconst 0, console = [''BOOM!'']\<rparr>"
  by (simp add: run_Cons run_Nil started_eq handleShoot_def handleExplode_eq
        explosionComplete_eq resetRocket_eq render_def setGameState_def initialRocket_def
        initialExplosion_def newShake_def spawnParticles_randoms updateAnimation_def
        shootingBranch_def Let_def)

text \<open>
  The theorem along the run Launch, Explode, completion of the explosion, Reset,
  Launch, two ticks.
\<close>

theorem pending_reset_survives_reset_witness:
  "explosionRef (run [ClickLaunch, ClickExplode] (started 800 600 (sconst (1/2)) (sconst 0)))
     = Some \<lparr>ani_x = 400, ani_y = 480, ani_visible = True, ani_scale = 4,
        ani_playing = True, ani_onComplete = Some 2000\<rparr> \<and>
   timeouts (explosionComplete (run [ClickLaunch, ClickExplode] (started 800 600 (sconst (1/2)) (sconst 0))))
     = timeouts (run [ClickLaunch, ClickExplode] (started 800 600 (sconst (1/2)) (sconst 0)))
         @ [(2000, ResetRocket)] \<and>
   (5::nat) < length (timeouts
     (run [ClickLaunch, ClickExplode, ExplosionComplete, ClickReset, ClickLaunch, Tick, Tick]
       (started 800 600 (sconst (1/2)) (sconst 0)))) \<and>
   gameState (fireTimeout 5
     (run [ClickLaunch, ClickExplode, ExplosionComplete, ClickReset, ClickLaunch, Tick, Tick]
       (started 800 600 (sconst (1/2)) (sconst 0)))) = Idle"
proof -
  let ?w2 = "run [ClickLaunch, ClickExplode] (started 800 600 (sconst (1/2)) (sconst 0))"
  let ?w7 = "run [ClickLaunch, ClickExplode, ExplosionComplete, ClickReset, ClickLaunch, Tick, Tick]
       (started 800 600 (sconst (1/2)) (sconst 0))"
  have e: "explosionRef ?w2 = Some \<lparr>ani_x = 400, ani_y = 480, ani_visible = True, ani_scale = 4,
        ani_playing = True, ani_onComplete = Some 2000\<rparr>"
    by (simp add: run_Cons run_Nil started_eq handleShoot_def handleExplode_eq render_def
          setGameState_def initialRocket_def initialExplosion_def)
  let ?e = "\<lparr>ani_x = 400, ani_y = 480, ani_visible = True, ani_scale = 4,
        ani_playing = True, ani_onComplete = Some 2000\<rparr>"
  have q: "explosionRef ?w2 = Some ?e \<and> ani_playing ?e \<and> ani_onComplete ?e = Some 2000"
    using e by simp
  have t: "timeouts (explosionComplete ?w2) = timeouts ?w2 @ [(2000, ResetRocket)]"
    using pending_reset_survives_reset [where w = ?w2 and delay = 2000 and k = 0 and e = ?e] q
    by blast
  have p: "5 < length (timeouts ?w7) \<and> snd (timeouts ?w7 ! 5) = ResetRocket \<and>
      appRef ?w7 \<noteq> None \<and> rocketRef ?w7 \<noteq> None \<and> explosionRef ?w7 \<noteq> None"
    by (simp add: stale_trace_eq)
  have g: "5 < length (timeouts ?w7) \<and> gameState (fireTimeout 5 ?w7) = Idle"
    using pending_reset_survives_reset [where w = ?w7 and k = 5 and e = initialExplosion
        and delay = 0] p
    by blast
  show ?thesis using e t g by simp
qed

text \<open>
  C5 as stated fails: after Launch, Explode, the completion of the explosion, Reset,
  Launch and two ticks the rocket is in flight at y = 564 and the reset timeout is still
  pending; when it fires, the phase is \<open>Idle\<close> and the rocket is back at y = 580.
\<close>

theorem stale_reset_fires_after_relaunch:
  "gameState (run [ClickLaunch, ClickExplode, ExplosionComplete, ClickReset, ClickLaunch, Tick, Tick]
       (started 800 600 (sconst (1/2)) (sconst 0))) = Shooting \<and>
   map_option spr_y (rocketRef
     (run [ClickLaunch, ClickExplode, ExplosionComplete, ClickReset, ClickLaunch, Tick, Tick]
       (started 800 600 (sconst (1/2)) (sconst 0)))) = Some 564 \<and>
   timeouts (run [ClickLaunch, ClickExplode, ExplosionComplete, ClickReset, ClickLaunch, Tick, Tick]
       (started 800 600 (sconst (1/2)) (sconst 0))) ! 5 = (2000, ResetRocket) \<and>
   gameState (step (Timeout 5)
     (run [ClickLaunch, ClickExplode, ExplosionComplete, ClickReset, ClickLaunch, Tick, Tick]
       (started 800 600 (sconst (1/2)) (sconst 0)))) = Idle \<and>
   map_option spr_y (rocketRef (step (Timeout 5)
     (run [ClickLaunch, ClickExplode, ExplosionComplete, ClickReset, ClickLaunch, Tick, Tick]
       (started 800 600 (sconst (1/2)) (sconst 0))))) = Some 580"
  by (simp add: stale_trace_eq fireTimeout_def spliceOne_def resetRocket_eq render_def Let_def)

end
